theory Spec2Isabelle
  imports Main "HOL-Library.Word"
begin

unbundle bit_operations_syntax

section \<open>Machine types\<close>

text \<open>
  The tracer of \<^verbatim>\<open>runtime/trace.cc\<close> is 32-bit code: a method pointer is cast to
  \<^verbatim>\<open>uint32_t\<close>. Fixed-width integers are words; the signed ones (\<^verbatim>\<open>int\<close>, \<^verbatim>\<open>int32_t\<close>)
  are read with \<open>sint\<close> and compared with \<open>\<le>s\<close> and \<open><s\<close>, and their addition wraps
  around as it does on the target.
\<close>

type_synonym uint8_t = "8 word"
type_synonym uint16_t = "16 word"
type_synonym uint32_t = "32 word"
type_synonym uint64_t = "64 word"
type_synonym int32_t = "32 word"

section \<open>Record codec\<close>

datatype TraceAction =
    kTraceMethodEnter
  | kTraceMethodExit
  | kTraceUnroll
  | kTraceMethodActionMask

text \<open>The enumerators' values: 0x00, 0x01, 0x02 and the two-bit mask 0x03.\<close>

fun TraceAction_value :: "TraceAction \<Rightarrow> uint32_t" where
  "TraceAction_value kTraceMethodEnter = 0"
| "TraceAction_value kTraceMethodExit = 1"
| "TraceAction_value kTraceUnroll = 2"
| "TraceAction_value kTraceMethodActionMask = 3"

text \<open>\<^verbatim>\<open>static_cast<TraceAction>(v)\<close> for a value already masked to two bits.\<close>

definition TraceAction_cast :: "uint32_t \<Rightarrow> TraceAction" where
  "TraceAction_cast v =
     (if v = 0 then kTraceMethodEnter
      else if v = 1 then kTraceMethodExit
      else if v = 2 then kTraceUnroll
      else kTraceMethodActionMask)"

definition DecodeTraceMethodId :: "uint32_t \<Rightarrow> uint32_t" where
  "DecodeTraceMethodId tmid = tmid AND NOT (TraceAction_value kTraceMethodActionMask)"

definition DecodeTraceAction :: "uint32_t \<Rightarrow> TraceAction" where
  "DecodeTraceAction tmid =
     TraceAction_cast (tmid AND TraceAction_value kTraceMethodActionMask)"

datatype trace_error =
    DCheckFailed
  | UnimplementedFatal

text \<open>
  \<^verbatim>\<open>DCHECK_EQ\<close> aborts in a debug build and is compiled out of a release build; the
  build kind is the parameter \<open>debug_build\<close>.
\<close>

definition EncodeTraceMethodAndAction ::
    "bool \<Rightarrow> uint32_t \<Rightarrow> TraceAction \<Rightarrow> trace_error + uint32_t" where
  "EncodeTraceMethodAndAction debug_build method action =
     (let tmid = method OR TraceAction_value action
      in if debug_build \<and> method \<noteq> DecodeTraceMethodId tmid then Inl DCheckFailed
         else Inr tmid)"

section \<open>Clocks\<close>

text \<open>
  \<^verbatim>\<open>MicroTime()\<close> and \<^verbatim>\<open>ThreadCpuMicroTime()\<close> read the environment. The
  environment is the sequence of values each clock will return, with the number of
  reads made so far; a read returns the next value and advances the count.
\<close>

record Clocks =
  cpu_samples :: "nat \<Rightarrow> uint64_t"
  cpu_reads :: nat
  wall_samples :: "nat \<Rightarrow> uint64_t"
  wall_reads :: nat

definition ThreadCpuMicroTime :: "Clocks \<Rightarrow> uint64_t \<times> Clocks" where
  "ThreadCpuMicroTime c = (cpu_samples c (cpu_reads c), c\<lparr>cpu_reads := Suc (cpu_reads c)\<rparr>)"

definition MicroTime :: "Clocks \<Rightarrow> uint64_t \<times> Clocks" where
  "MicroTime c = (wall_samples c (wall_reads c), c\<lparr>wall_reads := Suc (wall_reads c)\<rparr>)"

datatype ProfilerClockSource =
    kProfilerClockSourceThreadCpu
  | kProfilerClockSourceWall
  | kProfilerClockSourceDual

section \<open>Constants of the file format\<close>

definition kTraceHeaderLength :: uint16_t where
  "kTraceHeaderLength = 32"

definition kTraceMagicValue :: uint32_t where
  "kTraceMagicValue = 0x574f4c53"

definition kTraceVersionSingleClock :: uint16_t where
  "kTraceVersionSingleClock = 2"

definition kTraceVersionDualClock :: uint16_t where
  "kTraceVersionDualClock = 3"

definition kTraceRecordSizeSingleClock :: uint16_t where
  "kTraceRecordSizeSingleClock = 10"

definition kTraceRecordSizeDualClock :: uint16_t where
  "kTraceRecordSizeDualClock = 14"

definition GetTraceVersion :: "ProfilerClockSource \<Rightarrow> uint16_t" where
  "GetTraceVersion clock =
     (if clock = kProfilerClockSourceDual then kTraceVersionDualClock
      else kTraceVersionSingleClock)"

definition GetRecordSize :: "ProfilerClockSource \<Rightarrow> uint16_t" where
  "GetRecordSize clock =
     (if clock = kProfilerClockSourceDual then kTraceRecordSizeDualClock
      else kTraceRecordSizeSingleClock)"

section \<open>Little-endian encoders\<close>

text \<open>
  A buffer is the memory at \<^verbatim>\<open>buf.get()\<close>, indexed by the byte offset from that
  address. The encoders do no bounds check: a write at an offset lands at that offset,
  whether or not it lies inside the allocation.
\<close>

type_synonym memory = "int \<Rightarrow> uint8_t"

definition memset :: "memory \<Rightarrow> int \<Rightarrow> uint8_t \<Rightarrow> int \<Rightarrow> memory" where
  "memset mem p v n = (\<lambda>i. if p \<le> i \<and> i < p + n then v else mem i)"

definition Append2LE :: "memory \<Rightarrow> int \<Rightarrow> uint16_t \<Rightarrow> memory" where
  "Append2LE mem buf val =
     mem(buf := ucast val,
         buf + 1 := ucast (drop_bit 8 val))"

definition Append4LE :: "memory \<Rightarrow> int \<Rightarrow> uint32_t \<Rightarrow> memory" where
  "Append4LE mem buf val =
     mem(buf := ucast val,
         buf + 1 := ucast (drop_bit 8 val),
         buf + 2 := ucast (drop_bit 16 val),
         buf + 3 := ucast (drop_bit 24 val))"

definition Append8LE :: "memory \<Rightarrow> int \<Rightarrow> uint64_t \<Rightarrow> memory" where
  "Append8LE mem buf val =
     mem(buf := ucast val,
         buf + 1 := ucast (drop_bit 8 val),
         buf + 2 := ucast (drop_bit 16 val),
         buf + 3 := ucast (drop_bit 24 val),
         buf + 4 := ucast (drop_bit 32 val),
         buf + 5 := ucast (drop_bit 40 val),
         buf + 6 := ucast (drop_bit 48 val),
         buf + 7 := ucast (drop_bit 56 val))"

text \<open>
  The readers a trace consumer applies to the file (the spec's \<^verbatim>\<open>parse_u16_le\<close>,
  \<^verbatim>\<open>parse_u32_le\<close>, \<^verbatim>\<open>parse_u64_le\<close>); \<^verbatim>\<open>GetVisitedMethods\<close> reads a packed
  method value the same way.
\<close>

definition parse_u16_le :: "memory \<Rightarrow> int \<Rightarrow> uint16_t" where
  "parse_u16_le mem p = ucast (mem p) OR push_bit 8 (ucast (mem (p + 1)))"

definition parse_u32_le :: "memory \<Rightarrow> int \<Rightarrow> uint32_t" where
  "parse_u32_le mem p =
     ucast (mem p) OR push_bit 8 (ucast (mem (p + 1)))
       OR push_bit 16 (ucast (mem (p + 2))) OR push_bit 24 (ucast (mem (p + 3)))"

definition parse_u64_le :: "memory \<Rightarrow> int \<Rightarrow> uint64_t" where
  "parse_u64_le mem p =
     ucast (mem p) OR push_bit 8 (ucast (mem (p + 1)))
       OR push_bit 16 (ucast (mem (p + 2))) OR push_bit 24 (ucast (mem (p + 3)))
       OR push_bit 32 (ucast (mem (p + 4))) OR push_bit 40 (ucast (mem (p + 5)))
       OR push_bit 48 (ucast (mem (p + 6))) OR push_bit 56 (ucast (mem (p + 7)))"

section \<open>The tracer instance\<close>

text \<open>
  The members of the classes keep their names without the trailing underscore
  (\<^verbatim>\<open>cur_offset_\<close> is \<open>cur_offset\<close>).
\<close>

record File =
  fd :: int32_t
  path :: string
  auto_close :: bool

text \<open>A \<^verbatim>\<open>Thread*\<close>: the address identifies the thread, \<^verbatim>\<open>GetTid()\<close> reads its tid.\<close>

record Thread =
  thread_address :: uint32_t
  GetTid :: int32_t

record Trace =
  trace_file :: "File option"
  buf :: memory
  flags :: int32_t
  clock_source :: ProfilerClockSource
  buffer_size :: int32_t
  start_time :: uint64_t
  cur_offset :: int32_t
  overflow :: bool
  thread_clock_base_map :: "uint32_t \<rightharpoonup> uint64_t"

definition UseThreadCpuClock :: "Trace \<Rightarrow> bool" where
  "UseThreadCpuClock t \<longleftrightarrow>
     clock_source t = kProfilerClockSourceThreadCpu \<or>
     clock_source t = kProfilerClockSourceDual"

definition UseWallClock :: "Trace \<Rightarrow> bool" where
  "UseWallClock t \<longleftrightarrow>
     clock_source t = kProfilerClockSourceWall \<or>
     clock_source t = kProfilerClockSourceDual"

text \<open>
  The constructor. \<open>heap\<close> is the memory at the address the allocation returns, before
  \<^verbatim>\<open>new uint8_t[buffer_size]()\<close> zero-fills its \<open>a_buffer_size\<close> bytes (the allocation is
  taken to succeed); \<open>default_clock_source\<close> is the static \<^verbatim>\<open>default_clock_source_\<close>.
  The header is written with no check of the size, and the cursor is set to the
  header length whatever the size is.
\<close>

definition Trace_Trace ::
    "memory \<Rightarrow> ProfilerClockSource \<Rightarrow> Clocks \<Rightarrow> File option \<Rightarrow> int32_t \<Rightarrow> int32_t
       \<Rightarrow> Trace \<times> Clocks" where
  "Trace_Trace heap default_clock_source clocks a_trace_file a_buffer_size a_flags =
     (let (now, clocks') = MicroTime clocks;
          clock = default_clock_source;
          trace_version = GetTraceVersion clock;
          b0 = (\<lambda>i. if 0 \<le> i \<and> i < sint a_buffer_size then 0 else heap i);
          b1 = memset b0 0 0 (uint kTraceHeaderLength);
          b2 = Append4LE b1 0 kTraceMagicValue;
          b3 = Append2LE b2 4 trace_version;
          b4 = Append2LE b3 6 kTraceHeaderLength;
          b5 = Append8LE b4 8 now;
          b6 = (if kTraceVersionDualClock \<le> trace_version
                then Append2LE b5 16 (GetRecordSize clock)
                else b5)
      in (\<lparr>trace_file = a_trace_file,
           buf = b6,
           flags = a_flags,
           clock_source = clock,
           buffer_size = a_buffer_size,
           start_time = now,
           cur_offset = ucast kTraceHeaderLength,
           overflow = False,
           thread_clock_base_map = Map.empty\<rparr>,
          clocks'))"

datatype InstrumentationEvent =
    kMethodEntered
  | kMethodExited
  | kMethodUnwind
  | kDexPcMoved
  | kExceptionCaught

text \<open>The \<^verbatim>\<open>switch\<close> of \<^verbatim>\<open>LogMethodTraceEvent\<close>; its \<^verbatim>\<open>default\<close> is fatal.\<close>

fun event_action :: "InstrumentationEvent \<Rightarrow> trace_error + TraceAction" where
  "event_action kMethodEntered = Inr kTraceMethodEnter"
| "event_action kMethodExited = Inr kTraceMethodExit"
| "event_action kMethodUnwind = Inr kTraceUnroll"
| "event_action _ = Inl UnimplementedFatal"

text \<open>
  The test that guards the reservation: \<^verbatim>\<open>new_offset > buffer_size_\<close>, with
  \<^verbatim>\<open>new_offset = old_offset + GetRecordSize(clock_source_)\<close> computed in \<^verbatim>\<open>int32_t\<close>.
\<close>

definition new_offset_of :: "Trace \<Rightarrow> int32_t" where
  "new_offset_of t = cur_offset t + ucast (GetRecordSize (clock_source t))"

definition reservation_fails :: "Trace \<Rightarrow> bool" where
  "reservation_fails t \<longleftrightarrow> buffer_size t <s new_offset_of t"

text \<open>
  The part of \<^verbatim>\<open>LogMethodTraceEvent\<close> under \<^verbatim>\<open>UseThreadCpuClock()\<close>: a lookup of the
  thread in the base map; on a miss the clock is read and stored and the difference
  written is 0, on a hit the clock is read and the difference to the base is written,
  cut to 32 bits. Returns the memory, the map, the clocks and the advanced pointer.
\<close>

definition log_thread_clock ::
    "Trace \<Rightarrow> Clocks \<Rightarrow> Thread \<Rightarrow> memory \<Rightarrow> int
       \<Rightarrow> memory \<times> (uint32_t \<rightharpoonup> uint64_t) \<times> Clocks \<times> int" where
  "log_thread_clock t clocks thread mem ptr =
     (if UseThreadCpuClock t then
        (case thread_clock_base_map t (thread_address thread) of
           None \<Rightarrow>
             (let (time, clocks') = ThreadCpuMicroTime clocks
              in (Append4LE mem ptr 0,
                  (thread_clock_base_map t)(thread_address thread \<mapsto> time),
                  clocks', ptr + 4))
         | Some thread_clock_base \<Rightarrow>
             (let (now, clocks') = ThreadCpuMicroTime clocks
              in (Append4LE mem ptr (ucast (now - thread_clock_base)),
                  thread_clock_base_map t,
                  clocks', ptr + 4)))
      else (mem, thread_clock_base_map t, clocks, ptr))"

definition log_wall_clock :: "Trace \<Rightarrow> Clocks \<Rightarrow> memory \<Rightarrow> int \<Rightarrow> memory \<times> Clocks" where
  "log_wall_clock t clocks mem ptr =
     (if UseWallClock t then
        (let (now, clocks') = MicroTime clocks
         in (Append4LE mem ptr (ucast (now - start_time t)), clocks'))
      else (mem, clocks))"

text \<open>
  \<^verbatim>\<open>LogMethodTraceEvent\<close>, one call run to its end with no other thread in between:
  the compare-and-swap then finds the cursor it read and the loop body runs once.
  The early return on overflow comes before the \<^verbatim>\<open>switch\<close> and the encoding, whose
  failures abort the process.
\<close>

definition LogMethodTraceEvent ::
    "bool \<Rightarrow> Trace \<Rightarrow> Clocks \<Rightarrow> Thread \<Rightarrow> uint32_t \<Rightarrow> InstrumentationEvent
       \<Rightarrow> trace_error + Trace \<times> Clocks" where
  "LogMethodTraceEvent debug_build t clocks thread method event =
     (let old_offset = cur_offset t;
          new_offset = new_offset_of t
      in if reservation_fails t then Inr (t\<lparr>overflow := True\<rparr>, clocks)
         else
           (case event_action event of
              Inl e \<Rightarrow> Inl e
            | Inr action \<Rightarrow>
               (case EncodeTraceMethodAndAction debug_build method action of
                  Inl e \<Rightarrow> Inl e
                | Inr method_value \<Rightarrow>
                   (let ptr = sint old_offset;
                        m1 = Append2LE (buf t) ptr (ucast (GetTid thread));
                        m2 = Append4LE m1 (ptr + 2) method_value;
                        (m3, base_map, clocks1, ptr1) =
                           log_thread_clock t clocks thread m2 (ptr + 6);
                        (m4, clocks2) = log_wall_clock t clocks1 m3 ptr1
                    in Inr (t\<lparr>cur_offset := new_offset,
                              buf := m4,
                              thread_clock_base_map := base_map\<rparr>,
                            clocks2)))))"

text \<open>The three callbacks the tracer is registered for.\<close>

definition MethodEntered ::
    "bool \<Rightarrow> Trace \<Rightarrow> Clocks \<Rightarrow> Thread \<Rightarrow> uint32_t \<Rightarrow> trace_error + Trace \<times> Clocks" where
  "MethodEntered debug_build t clocks thread method =
     LogMethodTraceEvent debug_build t clocks thread method kMethodEntered"

definition MethodExited ::
    "bool \<Rightarrow> Trace \<Rightarrow> Clocks \<Rightarrow> Thread \<Rightarrow> uint32_t \<Rightarrow> trace_error + Trace \<times> Clocks" where
  "MethodExited debug_build t clocks thread method =
     LogMethodTraceEvent debug_build t clocks thread method kMethodExited"

definition MethodUnwind ::
    "bool \<Rightarrow> Trace \<Rightarrow> Clocks \<Rightarrow> Thread \<Rightarrow> uint32_t \<Rightarrow> trace_error + Trace \<times> Clocks" where
  "MethodUnwind debug_build t clocks thread method =
     LogMethodTraceEvent debug_build t clocks thread method kMethodUnwind"

text \<open>
  A sequence of log calls, each the thread, the method and the event of one callback.
  The run stops at the first call that aborts the process.
\<close>

type_synonym log_call = "Thread \<times> uint32_t \<times> InstrumentationEvent"

fun log_events ::
    "bool \<Rightarrow> Trace \<Rightarrow> Clocks \<Rightarrow> log_call list \<Rightarrow> trace_error + Trace \<times> Clocks" where
  "log_events debug_build t clocks [] = Inr (t, clocks)"
| "log_events debug_build t clocks ((thread, method, event) # calls) =
     (case LogMethodTraceEvent debug_build t clocks thread method event of
        Inl e \<Rightarrow> Inl e
      | Inr (t', clocks') \<Rightarrow> log_events debug_build t' clocks' calls)"

text \<open>
  What the run of a sequence of log calls is measured by: the number of calls whose
  reservation succeeded, and the threads that had an event logged.
\<close>

fun reserved_count :: "bool \<Rightarrow> Trace \<Rightarrow> Clocks \<Rightarrow> log_call list \<Rightarrow> nat" where
  "reserved_count debug_build t clocks [] = 0"
| "reserved_count debug_build t clocks ((thread, method, event) # calls) =
     (if reservation_fails t then 0 else 1) +
     (case LogMethodTraceEvent debug_build t clocks thread method event of
        Inl e \<Rightarrow> 0
      | Inr (t', clocks') \<Rightarrow> reserved_count debug_build t' clocks' calls)"

fun logged_threads :: "bool \<Rightarrow> Trace \<Rightarrow> Clocks \<Rightarrow> log_call list \<Rightarrow> uint32_t set" where
  "logged_threads debug_build t clocks [] = {}"
| "logged_threads debug_build t clocks ((thread, method, event) # calls) =
     (case LogMethodTraceEvent debug_build t clocks thread method event of
        Inl e \<Rightarrow> {}
      | Inr (t', clocks') \<Rightarrow>
          (if reservation_fails t then {} else {thread_address thread})
            \<union> logged_threads debug_build t' clocks' calls)"

text \<open>
  The invariant of the cursor: between the header length and the buffer size, and a
  whole number of records past the header.
\<close>

definition cursor_invariant :: "Trace \<Rightarrow> bool" where
  "cursor_invariant t \<longleftrightarrow>
     32 \<le> sint (cur_offset t) \<and> sint (cur_offset t) \<le> sint (buffer_size t)
     \<and> (sint (cur_offset t) - 32) mod uint (GetRecordSize (clock_source t)) = 0"

text \<open>
  The same with the upper bound that also holds for a buffer smaller than the header,
  where the cursor stays at 32.
\<close>

definition cursor_reachable :: "Trace \<Rightarrow> bool" where
  "cursor_reachable t \<longleftrightarrow>
     32 \<le> sint (cur_offset t) \<and> sint (cur_offset t) \<le> max 32 (sint (buffer_size t))
     \<and> (sint (cur_offset t) - 32) mod uint (GetRecordSize (clock_source t)) = 0"

section \<open>Clock overhead\<close>

definition MeasureClockOverhead :: "Trace \<Rightarrow> Clocks \<Rightarrow> Clocks" where
  "MeasureClockOverhead t c =
     (let c1 = (if UseThreadCpuClock t then snd (ThreadCpuMicroTime c) else c);
          c2 = (if UseWallClock t then snd (MicroTime c1) else c1)
      in c2)"

text \<open>The \<^verbatim>\<open>for\<close> loop of \<^verbatim>\<open>GetClockOverhead\<close>, with its counter \<open>i\<close>.\<close>

function GetClockOverhead_loop :: "Trace \<Rightarrow> int \<Rightarrow> Clocks \<Rightarrow> Clocks" where
  "GetClockOverhead_loop t i c =
     (if i > 0 then
        GetClockOverhead_loop t (i - 1)
          (MeasureClockOverhead t
          (MeasureClockOverhead t
          (MeasureClockOverhead t
          (MeasureClockOverhead t
          (MeasureClockOverhead t
          (MeasureClockOverhead t
          (MeasureClockOverhead t
          (MeasureClockOverhead t c))))))))
      else c)"
  by pat_completeness auto
termination
  by (relation "measure (\<lambda>(t, i, c). nat i)") auto

declare GetClockOverhead_loop.simps [simp del]

definition GetClockOverhead :: "Trace \<Rightarrow> Clocks \<Rightarrow> uint32_t \<times> Clocks" where
  "GetClockOverhead t c =
     (let (start, c1) = ThreadCpuMicroTime c;
          c2 = GetClockOverhead_loop t 4000 c1;
          (finish, c3) = ThreadCpuMicroTime c2;
          elapsed = finish - start
      in (ucast (elapsed div 32), c3))"

section \<open>Formatted output\<close>

text \<open>
  What \<^verbatim>\<open>StringPrintf\<close> and the stream operators print: \<^verbatim>\<open>%d\<close> and \<^verbatim>\<open>%zd\<close> a signed
  decimal number, \<^verbatim>\<open>%llu\<close> an unsigned one, \<^verbatim>\<open>%p\<close> a pointer in hexadecimal.
\<close>

definition digit_char :: "nat \<Rightarrow> char" where
  "digit_char n = (if n < 10 then char_of (48 + n) else char_of (87 + n))"

function dec_nat :: "nat \<Rightarrow> string" where
  "dec_nat n = (if n < 10 then [digit_char n] else dec_nat (n div 10) @ [digit_char (n mod 10)])"
  by pat_completeness auto
termination
  by (relation "measure (\<lambda>n. n)") auto

declare dec_nat.simps [simp del]

definition dec_int :: "int \<Rightarrow> string" where
  "dec_int i = (if i < 0 then ''-'' @ dec_nat (nat (- i)) else dec_nat (nat i))"

function hex_nat :: "nat \<Rightarrow> string" where
  "hex_nat n = (if n < 16 then [digit_char n] else hex_nat (n div 16) @ [digit_char (n mod 16)])"
  by pat_completeness auto
termination
  by (relation "measure (\<lambda>n. n)") auto

declare hex_nat.simps [simp del]

definition pointer_string :: "uint32_t \<Rightarrow> string" where
  "pointer_string p = ''0x'' @ hex_nat (unat p)"

definition newline :: string where
  "newline = [CHR 0x0A]"

definition tab :: string where
  "tab = [CHR 0x09]"

section \<open>The runtime around the tracer\<close>

text \<open>
  The collaborators \<^verbatim>\<open>Trace::Start\<close> and \<^verbatim>\<open>Trace::FinishTracing\<close> act on, as one state:
  the static \<^verbatim>\<open>the_trace_\<close> and \<^verbatim>\<open>default_clock_source_\<close>, the runtime's statistics,
  the listeners registered with the instrumentation, the thread list with the threads'
  names, the error log, the exception pending in the calling thread, what was sent to
  the sink, and the clocks.
\<close>

datatype emission =
    DdmSendChunkV string "uint8_t list"
  | WriteFully_header File string
  | WriteFully_data File "uint8_t list"

record Runtime =
  the_trace :: "Trace option"
  default_clock_source :: ProfilerClockSource
  stats_enabled :: bool
  stat_allocated_objects :: int32_t
  stat_allocated_bytes :: int32_t
  stat_gc_invocations :: int32_t
  listeners :: "InstrumentationEvent list list"
  suspended :: bool
  thread_list :: "(Thread \<times> string) list"
  error_log :: "string list"
  pending_exception :: "string option"
  emitted :: "emission list"
  clock_state :: Clocks

definition SuspendAll :: "Runtime \<Rightarrow> Runtime" where
  "SuspendAll rt = rt\<lparr>suspended := True\<rparr>"

definition ResumeAll :: "Runtime \<Rightarrow> Runtime" where
  "ResumeAll rt = rt\<lparr>suspended := False\<rparr>"

definition LOG_ERROR :: "string \<Rightarrow> Runtime \<Rightarrow> Runtime" where
  "LOG_ERROR msg rt = rt\<lparr>error_log := error_log rt @ [msg]\<rparr>"

definition ThrowRuntimeException :: "string \<Rightarrow> Runtime \<Rightarrow> Runtime" where
  "ThrowRuntimeException msg rt = rt\<lparr>pending_exception := Some msg\<rparr>"

text \<open>
  Modelled from the spec: \<^verbatim>\<open>Runtime::SetStatsEnabled\<close> is defined in runtime.cc, which is
  not among the sources; the spec's \<^verbatim>\<open>set_stats_enabled(bool)\<close> turns the runtime's
  allocation statistics on or off.
\<close>

definition SetStatsEnabled :: "bool \<Rightarrow> Runtime \<Rightarrow> Runtime" where
  "SetStatsEnabled new_state rt = rt\<lparr>stats_enabled := new_state\<rparr>"

text \<open>
  Modelled from the spec: \<^verbatim>\<open>Instrumentation::AddListener\<close> is defined in
  instrumentation.cc, which is not among the sources; the spec's
  \<^verbatim>\<open>add_listener(events_bitset, listener)\<close> registers the listener for the events, and
  the listener count is the number of registrations.
\<close>

definition AddListener :: "InstrumentationEvent list \<Rightarrow> Runtime \<Rightarrow> Runtime" where
  "AddListener events rt = rt\<lparr>listeners := listeners rt @ [events]\<rparr>"

section \<open>Finishing a trace\<close>

text \<open>
  \<^verbatim>\<open>GetVisitedMethods\<close>: the loop over the records from the header to \<open>end_ptr\<close>, each
  step reading the packed method value two bytes into the record.
\<close>

function GetVisitedMethods_loop ::
    "memory \<Rightarrow> ProfilerClockSource \<Rightarrow> int \<Rightarrow> int \<Rightarrow> uint32_t set \<Rightarrow> uint32_t set" where
  "GetVisitedMethods_loop mem clock ptr end_ptr visited_methods =
     (if ptr < end_ptr then
        (let tmid = parse_u32_le mem (ptr + 2);
             method = DecodeTraceMethodId tmid
         in GetVisitedMethods_loop mem clock (ptr + uint (GetRecordSize clock)) end_ptr
              (insert method visited_methods))
      else visited_methods)"
  by pat_completeness auto
termination
  by (relation "measure (\<lambda>(mem, clock, ptr, end_ptr, visited). nat (end_ptr - ptr))")
    (auto simp: GetRecordSize_def kTraceRecordSizeDualClock_def kTraceRecordSizeSingleClock_def)

declare GetVisitedMethods_loop.simps [simp del]

definition GetVisitedMethods :: "Trace \<Rightarrow> uint32_t \<Rightarrow> uint32_t set" where
  "GetVisitedMethods t buf_size =
     GetVisitedMethods_loop (buf t) (clock_source t) (uint kTraceHeaderLength) (uint buf_size) {}"

text \<open>
  What \<^verbatim>\<open>MethodHelper\<close> tells about a method: the declaring class's descriptor, made
  pretty, the name, the signature and the source file. It is a parameter of the
  functions below.
\<close>

record MethodInfo =
  declaring_class_descriptor :: string
  method_name :: string
  method_signature :: string
  declaring_class_source_file :: string

definition DumpMethodList :: "(uint32_t \<Rightarrow> MethodInfo) \<Rightarrow> uint32_t set \<Rightarrow> string" where
  "DumpMethodList mh visited_methods =
     concat (map (\<lambda>method.
         pointer_string method @ tab @ declaring_class_descriptor (mh method) @ tab
           @ method_name (mh method) @ tab @ method_signature (mh method) @ tab
           @ declaring_class_source_file (mh method) @ newline)
       (sorted_list_of_set visited_methods))"

definition DumpThread :: "Thread \<times> string \<Rightarrow> string" where
  "DumpThread tn = dec_int (sint (GetTid (fst tn))) @ tab @ snd tn @ newline"

definition DumpThreadList :: "Runtime \<Rightarrow> string" where
  "DumpThreadList rt = concat (map DumpThread (thread_list rt))"

text \<open>
  \<^verbatim>\<open>num_records\<close> of \<^verbatim>\<open>FinishTracing\<close>: \<^verbatim>\<open>final_offset\<close> is the cursor as a
  \<^verbatim>\<open>size_t\<close>, and the subtraction and the division are unsigned.
\<close>

definition num_records_of :: "Trace \<Rightarrow> uint32_t" where
  "num_records_of t =
     (let final_offset = cur_offset t
      in (final_offset - ucast kTraceHeaderLength) div ucast (GetRecordSize (clock_source t)))"

text \<open>
  The text \<^verbatim>\<open>FinishTracing\<close> builds in \<^verbatim>\<open>os\<close>, one element for each
  \<^verbatim>\<open>os << ...\<close>; \<open>kTraceCountAllocs\<close> is the flag bit of trace.h, which is not among
  the sources, and is a parameter.
\<close>

definition preamble_lines ::
    "int32_t \<Rightarrow> (uint32_t \<Rightarrow> MethodInfo) \<Rightarrow> Runtime \<Rightarrow> Trace \<Rightarrow> uint64_t \<Rightarrow> uint32_t
       \<Rightarrow> uint32_t set \<Rightarrow> string list" where
  "preamble_lines kTraceCountAllocs mh rt t elapsed clock_overhead visited_methods =
     [''*version'' @ newline,
      dec_nat (unat (GetTraceVersion (clock_source t))) @ newline,
      ''data-file-overflow='' @ (if overflow t then ''true'' else ''false'') @ newline,
      (if UseThreadCpuClock t then
         (if UseWallClock t then ''clock=dual'' @ newline else ''clock=thread-cpu'' @ newline)
       else ''clock=wall'' @ newline),
      ''elapsed-time-usec='' @ dec_nat (unat elapsed) @ newline,
      ''num-method-calls='' @ dec_int (sint (num_records_of t)) @ newline,
      ''clock-call-overhead-nsec='' @ dec_int (sint clock_overhead) @ newline,
      ''vm=art'' @ newline]
     @ (if flags t AND kTraceCountAllocs \<noteq> 0 then
          [''alloc-count='' @ dec_int (sint (stat_allocated_objects rt)) @ newline,
           ''alloc-size='' @ dec_int (sint (stat_allocated_bytes rt)) @ newline,
           ''gc-count='' @ dec_int (sint (stat_gc_invocations rt)) @ newline]
        else [])
     @ [''*threads'' @ newline,
        DumpThreadList rt,
        ''*methods'' @ newline,
        DumpMethodList mh visited_methods,
        ''*end'' @ newline]"

text \<open>
  \<^verbatim>\<open>FinishTracing\<close> up to \<^verbatim>\<open>std::string header(os.str())\<close>: the clocks are read, the
  statistics are switched off if the flag asks for it, and the header is the text above.
\<close>

definition FinishTracing_header ::
    "int32_t \<Rightarrow> (uint32_t \<Rightarrow> MethodInfo) \<Rightarrow> Runtime \<Rightarrow> Trace \<Rightarrow> string \<times> Runtime" where
  "FinishTracing_header kTraceCountAllocs mh rt t =
     (let (now, c1) = MicroTime (clock_state rt);
          elapsed = now - start_time t;
          final_offset = cur_offset t;
          (clock_overhead, c2) = GetClockOverhead t c1;
          rt1 = rt\<lparr>clock_state := c2\<rparr>;
          rt2 = (if flags t AND kTraceCountAllocs \<noteq> 0 then SetStatsEnabled False rt1 else rt1);
          visited_methods = GetVisitedMethods t final_offset
      in (concat (preamble_lines kTraceCountAllocs mh rt2 t elapsed clock_overhead
                    visited_methods),
          rt2))"



section \<open>Starting a trace\<close>

text \<open>
  \<^verbatim>\<open>Trace::Start\<close>. \<open>kTraceCountAllocs\<close> is the flag bit of trace.h; \<open>heap\<close> is the
  memory the buffer is allocated in; \<open>OpenFile\<close> is \<^verbatim>\<open>OS::OpenFile\<close>, which returns no
  file when the file cannot be opened. The test of the flags is the source's
  \<^verbatim>\<open>(flags && kTraceCountAllocs) != 0\<close>, with the logical and. The second test of
  \<^verbatim>\<open>the_trace_\<close>, under the lock again, is kept although no other thread runs in
  between here. The logged message is without the text of \<^verbatim>\<open>errno\<close>.
\<close>

definition Start ::
    "int32_t \<Rightarrow> memory \<Rightarrow> (string \<Rightarrow> File option) \<Rightarrow> Runtime
       \<Rightarrow> string \<Rightarrow> int32_t \<Rightarrow> int32_t \<Rightarrow> int32_t \<Rightarrow> bool \<Rightarrow> Runtime" where
  "Start kTraceCountAllocs heap OpenFile rt trace_filename trace_fd a_buffer_size a_flags
       direct_to_ddms =
     (if the_trace rt \<noteq> None then
        LOG_ERROR ''Trace already in progress, ignoring this request'' rt
      else
        (let rt1 = SuspendAll rt;
             a_trace_file =
               (if \<not> direct_to_ddms then
                  (if trace_fd <s 0 then OpenFile trace_filename
                   else Some \<lparr>fd = trace_fd, path = ''tracefile'', auto_close = False\<rparr>)
                else None)
         in if \<not> direct_to_ddms \<and> a_trace_file = None then
              ThrowRuntimeException
                (''Unable to open trace file '' @ [CHR 0x27] @ trace_filename @ [CHR 0x27])
                (ResumeAll
                  (LOG_ERROR
                    (''Unable to open trace file '' @ [CHR 0x27] @ trace_filename @ [CHR 0x27])
                    rt1))
            else if the_trace rt1 \<noteq> None then
              ResumeAll (LOG_ERROR ''Trace already in progress, ignoring this request'' rt1)
            else
              (let (t, c) = Trace_Trace heap (default_clock_source rt1) (clock_state rt1)
                              a_trace_file a_buffer_size a_flags;
                   rt2 = rt1\<lparr>the_trace := Some t, clock_state := c\<rparr>;
                   rt3 = (if (a_flags \<noteq> 0 \<and> kTraceCountAllocs \<noteq> 0) \<noteq> False
                          then SetStatsEnabled True rt2 else rt2);
                   rt4 = AddListener [kMethodEntered, kMethodExited, kMethodUnwind] rt3
               in ResumeAll rt4)))"

section \<open>Example inputs\<close>

text \<open>
  The inputs of the boundary scenarios: memory that reads zero, a thread-CPU clock that
  returns 1000 and then 1175 microseconds, a wall clock that advances by 42 microseconds
  a read, thread 5 and the method at 0x10002000.
\<close>

definition zero_memory :: memory where
  "zero_memory = (\<lambda>_. 0)"

definition example_clocks :: Clocks where
  "example_clocks =
     \<lparr>cpu_samples = (\<lambda>n. if n = 0 then 1000 else 1175), cpu_reads = 0,
      wall_samples = (\<lambda>n. 5000 + 42 * of_nat n), wall_reads = 0\<rparr>"

definition example_thread :: Thread where
  "example_thread = \<lparr>thread_address = 0x40001000, GetTid = 5\<rparr>"

definition example_method :: uint32_t where
  "example_method = 0x10002000"

definition no_file :: "string \<Rightarrow> File option" where
  "no_file = (\<lambda>_. None)"

definition example_method_info :: "uint32_t \<Rightarrow> MethodInfo" where
  "example_method_info =
     (\<lambda>_. \<lparr>declaring_class_descriptor = ''Main'', method_name = ''run'',
           method_signature = ''()V'', declaring_class_source_file = ''Main.java''\<rparr>)"

definition example_runtime :: Runtime where
  "example_runtime =
     \<lparr>the_trace = None, default_clock_source = kProfilerClockSourceDual,
      stats_enabled = False, stat_allocated_objects = 0, stat_allocated_bytes = 0,
      stat_gc_invocations = 0, listeners = [], suspended = False, thread_list = [],
      error_log = [], pending_exception = None, emitted = [],
      clock_state = example_clocks\<rparr>"

section \<open>Properties of the record codec\<close>

lemma and_not_3_of_aligned:
  fixes m :: uint32_t
  assumes "m AND 3 = 0"
  shows "m AND NOT 3 = m"
proof -
  have "m = m AND (3 OR NOT 3)" by simp
  also have "\<dots> = (m AND 3) OR (m AND NOT 3)" by (simp only: bit.conj_disj_distrib)
  finally show ?thesis using assms by simp
qed

lemma decode_method_of_packed:
  fixes m :: uint32_t
  assumes "m AND 3 = 0"
  shows "DecodeTraceMethodId (m OR TraceAction_value a) = m"
proof -
  have "TraceAction_value a AND NOT 3 = 0" by (cases a) simp_all
  then show ?thesis
    using and_not_3_of_aligned [OF assms]
    by (simp add: DecodeTraceMethodId_def bit.conj_disj_distrib2)
qed

lemma decode_action_of_packed:
  fixes m :: uint32_t
  assumes "m AND 3 = 0"
  shows "DecodeTraceAction (m OR TraceAction_value a) = a"
proof -
  have "(m OR TraceAction_value a) AND 3 = TraceAction_value a AND 3"
    using assms by (simp add: bit.conj_disj_distrib2)
  then show ?thesis
    by (cases a) (simp_all add: DecodeTraceAction_def TraceAction_cast_def)
qed

text \<open>
  Claim C2. For every method reference \<open>m\<close> whose low two bits are zero and every action
  \<open>a\<close> with value 0, 1 or 2, \<^verbatim>\<open>EncodeTraceMethodAndAction\<close> returns the packed value
  (its \<^verbatim>\<open>DCHECK_EQ\<close> does not fire, in a debug build or a release build), and decoding
  the packed value gives back exactly \<open>m\<close> and exactly \<open>a\<close>.
\<close>

theorem encode_decode_roundtrip:
  fixes m :: uint32_t
  assumes "m AND 3 = 0" and "TraceAction_value a \<in> {0, 1, 2}"
  shows "EncodeTraceMethodAndAction debug_build m a = Inr (m OR TraceAction_value a)
         \<and> DecodeTraceMethodId (m OR TraceAction_value a) = m
         \<and> DecodeTraceAction (m OR TraceAction_value a) = a"
  using decode_method_of_packed [OF assms(1), of a] decode_action_of_packed [OF assms(1), of a]
  by (simp add: EncodeTraceMethodAndAction_def)

theorem encode_decode_roundtrip_witness:
  "(0x10002000 :: uint32_t) AND 3 = 0
   \<and> TraceAction_value kTraceMethodExit \<in> {0, 1, 2}
   \<and> EncodeTraceMethodAndAction True 0x10002000 kTraceMethodExit = Inr 0x10002001
   \<and> DecodeTraceMethodId 0x10002001 = 0x10002000
   \<and> DecodeTraceAction 0x10002001 = kTraceMethodExit"
proof -
  have a: "(0x10002000 :: uint32_t) AND 3 = 0" by simp
  have b: "TraceAction_value kTraceMethodExit \<in> {0, 1, 2}" by simp
  show ?thesis
    using encode_decode_roundtrip [OF a b, of True] a by simp
qed

section \<open>Properties of the little-endian encoders\<close>

lemma bit_byte_at:
  fixes v :: "'a::len word"
  shows "bit (push_bit k (ucast (ucast (drop_bit k v) :: uint8_t)) :: 'a word) n
         \<longleftrightarrow> k \<le> n \<and> n < k + 8 \<and> bit v n"
proof (cases "k \<le> n")
  case True
  then obtain d where n: "n = k + d" using le_Suc_ex by blast
  show ?thesis by (auto simp: n bit_simps dest: bit_imp_le_length)
next
  case False
  then show ?thesis by (simp add: bit_simps)
qed

lemma bit_byte_0:
  fixes v :: "'a::len word"
  shows "bit (ucast (ucast v :: uint8_t) :: 'a word) n \<longleftrightarrow> n < 8 \<and> bit v n"
  using bit_byte_at [of 0 v n] by simp

lemma bytes16:
  fixes v :: uint16_t
  shows "ucast (ucast v :: uint8_t) OR push_bit 8 (ucast (ucast (drop_bit 8 v) :: uint8_t)) = v"
proof (rule bit_word_eqI)
  fix n assume "n < LENGTH(16)"
  then have "n < 8 \<or> (8 \<le> n \<and> n < 8 + 8)"
    by simp arith
  then show "bit (ucast (ucast v :: uint8_t)
      OR push_bit 8 (ucast (ucast (drop_bit 8 v) :: uint8_t)) :: uint16_t) n = bit v n"
    by (auto simp add: bit_or_iff bit_byte_at bit_byte_0)
qed

lemma bytes32:
  fixes v :: uint32_t
  shows "ucast (ucast v :: uint8_t) OR push_bit 8 (ucast (ucast (drop_bit 8 v) :: uint8_t))
    OR push_bit 16 (ucast (ucast (drop_bit 16 v) :: uint8_t))
    OR push_bit 24 (ucast (ucast (drop_bit 24 v) :: uint8_t)) = v"
proof (rule bit_word_eqI)
  fix n assume "n < LENGTH(32)"
  then have "n < 8 \<or> (8 \<le> n \<and> n < 8 + 8) \<or> (16 \<le> n \<and> n < 16 + 8)
      \<or> (24 \<le> n \<and> n < 24 + 8)"
    by simp arith
  then show "bit (ucast (ucast v :: uint8_t)
      OR push_bit 8 (ucast (ucast (drop_bit 8 v) :: uint8_t))
      OR push_bit 16 (ucast (ucast (drop_bit 16 v) :: uint8_t))
      OR push_bit 24 (ucast (ucast (drop_bit 24 v) :: uint8_t)) :: uint32_t) n = bit v n"
    by (auto simp add: bit_or_iff bit_byte_at bit_byte_0)
qed

lemma bytes64:
  fixes v :: uint64_t
  shows "ucast (ucast v :: uint8_t) OR push_bit 8 (ucast (ucast (drop_bit 8 v) :: uint8_t))
    OR push_bit 16 (ucast (ucast (drop_bit 16 v) :: uint8_t))
    OR push_bit 24 (ucast (ucast (drop_bit 24 v) :: uint8_t))
    OR push_bit 32 (ucast (ucast (drop_bit 32 v) :: uint8_t))
    OR push_bit 40 (ucast (ucast (drop_bit 40 v) :: uint8_t))
    OR push_bit 48 (ucast (ucast (drop_bit 48 v) :: uint8_t))
    OR push_bit 56 (ucast (ucast (drop_bit 56 v) :: uint8_t)) = v"
proof (rule bit_word_eqI)
  fix n assume "n < LENGTH(64)"
  then have "n < 8 \<or> (8 \<le> n \<and> n < 8 + 8) \<or> (16 \<le> n \<and> n < 16 + 8)
      \<or> (24 \<le> n \<and> n < 24 + 8) \<or> (32 \<le> n \<and> n < 32 + 8) \<or> (40 \<le> n \<and> n < 40 + 8)
      \<or> (48 \<le> n \<and> n < 48 + 8) \<or> (56 \<le> n \<and> n < 56 + 8)"
    by simp arith
  then show "bit (ucast (ucast v :: uint8_t)
      OR push_bit 8 (ucast (ucast (drop_bit 8 v) :: uint8_t))
      OR push_bit 16 (ucast (ucast (drop_bit 16 v) :: uint8_t))
      OR push_bit 24 (ucast (ucast (drop_bit 24 v) :: uint8_t))
      OR push_bit 32 (ucast (ucast (drop_bit 32 v) :: uint8_t))
      OR push_bit 40 (ucast (ucast (drop_bit 40 v) :: uint8_t))
      OR push_bit 48 (ucast (ucast (drop_bit 48 v) :: uint8_t))
      OR push_bit 56 (ucast (ucast (drop_bit 56 v) :: uint8_t)) :: uint64_t) n = bit v n"
    by (auto simp add: bit_or_iff bit_byte_at bit_byte_0)
qed

text \<open>Reading back what an encoder wrote.\<close>

lemma parse_Append2LE: "parse_u16_le (Append2LE mem p v) p = v"
  by (simp add: parse_u16_le_def Append2LE_def bytes16)

lemma parse_Append4LE: "parse_u32_le (Append4LE mem p v) p = v"
  by (simp add: parse_u32_le_def Append4LE_def bytes32)

lemma parse_Append8LE: "parse_u64_le (Append8LE mem p v) p = v"
  by (simp add: parse_u64_le_def Append8LE_def bytes64)

section \<open>The header written by the constructor\<close>

lemmas encoder_defs = Append2LE_def Append4LE_def Append8LE_def memset_def

lemma header_buf:
  "buf (fst (Trace_Trace heap clk clocks file bs fl)) =
   (let b5 = Append8LE (Append2LE (Append2LE (Append4LE
               (memset (\<lambda>i. if 0 \<le> i \<and> i < sint bs then 0 else heap i) 0 0 32)
               0 0x574f4c53) 4 (GetTraceVersion clk)) 6 32)
               8 (wall_samples clocks (wall_reads clocks))
    in if clk = kProfilerClockSourceDual then Append2LE b5 16 14 else b5)"
  by (simp add: Trace_Trace_def MicroTime_def Let_def kTraceHeaderLength_def kTraceMagicValue_def
      GetTraceVersion_def GetRecordSize_def kTraceVersionDualClock_def kTraceVersionSingleClock_def
      kTraceRecordSizeDualClock_def)

lemma header_magic:
  "parse_u32_le (buf (fst (Trace_Trace heap clk clocks file bs fl))) 0 = 0x574F4C53"
  unfolding header_buf Let_def by (simp add: parse_u32_le_def encoder_defs)

lemma header_magic_bytes:
  "buf (fst (Trace_Trace heap clk clocks file bs fl)) 0 = 0x53"
  "buf (fst (Trace_Trace heap clk clocks file bs fl)) 1 = 0x4C"
  "buf (fst (Trace_Trace heap clk clocks file bs fl)) 2 = 0x4F"
  "buf (fst (Trace_Trace heap clk clocks file bs fl)) 3 = 0x57"
  unfolding header_buf Let_def by (simp_all add: encoder_defs)

lemma header_version:
  "parse_u16_le (buf (fst (Trace_Trace heap clk clocks file bs fl))) 4 = GetTraceVersion clk"
  unfolding header_buf Let_def by (simp add: parse_u16_le_def encoder_defs bytes16)

lemma header_data_offset:
  "parse_u16_le (buf (fst (Trace_Trace heap clk clocks file bs fl))) 6 = 32"
  unfolding header_buf Let_def by (simp add: parse_u16_le_def encoder_defs)

lemma header_start_time:
  "parse_u64_le (buf (fst (Trace_Trace heap clk clocks file bs fl))) 8
     = wall_samples clocks (wall_reads clocks)"
  unfolding header_buf Let_def by (simp add: parse_u64_le_def encoder_defs bytes64)

lemma header_record_size:
  "clk = kProfilerClockSourceDual \<Longrightarrow>
   parse_u16_le (buf (fst (Trace_Trace heap clk clocks file bs fl))) 16 = 14"
  unfolding header_buf Let_def by (simp add: parse_u16_le_def encoder_defs)

lemma header_padding_from_18:
  "18 \<le> i \<Longrightarrow> i < 32 \<Longrightarrow> buf (fst (Trace_Trace heap clk clocks file bs fl)) i = 0"
  unfolding header_buf Let_def by (simp add: encoder_defs)

lemma header_padding_from_16:
  "clk \<noteq> kProfilerClockSourceDual \<Longrightarrow> 16 \<le> i \<Longrightarrow> i < 32
   \<Longrightarrow> buf (fst (Trace_Trace heap clk clocks file bs fl)) i = 0"
  unfolding header_buf Let_def by (simp add: encoder_defs)

lemma GetTraceVersion_cases:
  "GetTraceVersion clk = (if clk = kProfilerClockSourceDual then 3 else 2)"
  by (simp add: GetTraceVersion_def kTraceVersionDualClock_def kTraceVersionSingleClock_def)

lemma GetRecordSize_cases:
  "GetRecordSize clk = (if clk = kProfilerClockSourceDual then 14 else 10)"
  by (simp add: GetRecordSize_def kTraceRecordSizeDualClock_def kTraceRecordSizeSingleClock_def)

lemma constructed_fields:
  "start_time (fst (Trace_Trace heap clk clocks file bs fl)) = wall_samples clocks (wall_reads clocks)"
  "cur_offset (fst (Trace_Trace heap clk clocks file bs fl)) = 32"
  "buffer_size (fst (Trace_Trace heap clk clocks file bs fl)) = bs"
  "clock_source (fst (Trace_Trace heap clk clocks file bs fl)) = clk"
  "overflow (fst (Trace_Trace heap clk clocks file bs fl)) = False"
  "thread_clock_base_map (fst (Trace_Trace heap clk clocks file bs fl)) = Map.empty"
  "flags (fst (Trace_Trace heap clk clocks file bs fl)) = fl"
  "trace_file (fst (Trace_Trace heap clk clocks file bs fl)) = file"
  by (simp_all add: Trace_Trace_def MicroTime_def Let_def kTraceHeaderLength_def)

text \<open>
  Claim C5. The constructor writes the header: read in little-endian order, the four
  bytes at offset 0 are the magic 0x574F4C53 (the bytes \<open>S\<close>, \<open>L\<close>, \<open>O\<close>, \<open>W\<close>), the two at
  offset 4 the version (3 for the dual clock source, 2 for the two single ones), the
  two at offset 6 the value 32, the eight at offset 8 the wall-clock microseconds read
  at construction (also kept as the start time); when the version is at least 3 the two
  bytes at offset 16 are the record size 14; every byte after that up to offset 32 (from
  18 when the record size is written, from 16 otherwise) is zero.
\<close>

theorem header_layout:
  "(let b = buf (fst (Trace_Trace heap clk clocks file bs fl));
        version = parse_u16_le b 4
    in parse_u32_le b 0 = 0x574F4C53
       \<and> b 0 = 0x53 \<and> b 1 = 0x4C \<and> b 2 = 0x4F \<and> b 3 = 0x57
       \<and> version = (if clk = kProfilerClockSourceDual then 3 else 2)
       \<and> parse_u16_le b 6 = 32
       \<and> parse_u64_le b 8 = wall_samples clocks (wall_reads clocks)
       \<and> start_time (fst (Trace_Trace heap clk clocks file bs fl))
            = wall_samples clocks (wall_reads clocks)
       \<and> (3 \<le> version \<longrightarrow> parse_u16_le b 16 = GetRecordSize clk \<and> GetRecordSize clk = 14)
       \<and> (\<forall>i. (if 3 \<le> version then 18 else 16) \<le> i \<and> i < 32 \<longrightarrow> b i = 0))"
proof -
  let ?b = "buf (fst (Trace_Trace heap clk clocks file bs fl))"
  have version: "parse_u16_le ?b 4 = (if clk = kProfilerClockSourceDual then 3 else 2)"
    by (simp only: header_version GetTraceVersion_cases)
  have dual: "3 \<le> parse_u16_le ?b 4 \<longleftrightarrow> clk = kProfilerClockSourceDual"
    by (simp add: version)
  have size: "3 \<le> parse_u16_le ?b 4 \<longrightarrow>
      parse_u16_le ?b 16 = GetRecordSize clk \<and> GetRecordSize clk = 14"
    by (simp add: dual header_record_size GetRecordSize_cases)
  have padding: "\<forall>i. (if 3 \<le> parse_u16_le ?b 4 then 18 else 16) \<le> i \<and> i < 32 \<longrightarrow> ?b i = 0"
    by (simp add: dual header_padding_from_18 header_padding_from_16)
  show ?thesis
    unfolding Let_def
    using version size padding
    by (simp only: header_magic header_magic_bytes header_data_offset header_start_time
        constructed_fields(1))
qed

theorem header_layout_witness:
  "(let b = buf (fst (Trace_Trace (\<lambda>_. 0xFF) kProfilerClockSourceDual
                 \<lparr>cpu_samples = (\<lambda>_. 0), cpu_reads = 0,
                  wall_samples = (\<lambda>_. 0x0102030405060708), wall_reads = 0\<rparr> None 4096 0))
    in 3 \<le> parse_u16_le b 4
       \<and> parse_u16_le b 16 = 14
       \<and> (18 \<le> (20 :: int) \<and> (20 :: int) < 32)
       \<and> b 20 = 0
       \<and> parse_u64_le b 8 = 0x0102030405060708
       \<and> parse_u32_le b 0 = 0x574F4C53)"
  using header_layout [of "\<lambda>_. 0xFF" kProfilerClockSourceDual
      "\<lparr>cpu_samples = (\<lambda>_. 0), cpu_reads = 0,
        wall_samples = (\<lambda>_. 0x0102030405060708), wall_reads = 0\<rparr>" None 4096 0]
  by (simp add: Let_def GetRecordSize_cases)

section \<open>The cursor\<close>

lemma sint_ucast_GetRecordSize:
  "sint (ucast (GetRecordSize clk) :: int32_t) = uint (GetRecordSize clk)"
  by (simp add: GetRecordSize_cases)

lemma sint_add_no_wrap:
  fixes a b :: int32_t
  assumes "- (2 ^ 31) \<le> sint a + sint b" and "sint a + sint b < 2 ^ 31"
  shows "sint (a + b) = sint a + sint b"
  using assms by (simp add: sint_word_ariths signed_take_bit_int_eq_self)

lemma sint_new_offset:
  assumes "0 \<le> sint (cur_offset t)"
    and "sint (cur_offset t) + uint (GetRecordSize (clock_source t)) < 2 ^ 31"
  shows "sint (new_offset_of t) = sint (cur_offset t) + uint (GetRecordSize (clock_source t))"
proof -
  let ?r = "ucast (GetRecordSize (clock_source t)) :: int32_t"
  have r: "sint ?r = uint (GetRecordSize (clock_source t))"
    by (rule sint_ucast_GetRecordSize)
  have "0 \<le> sint ?r" by (simp only: r) simp
  with assms have "- (2 ^ 31) \<le> sint (cur_offset t) + sint ?r"
    and "sint (cur_offset t) + sint ?r < 2 ^ 31"
    by (simp_all only: r)
  then have "sint (cur_offset t + ?r) = sint (cur_offset t) + sint ?r"
    by (rule sint_add_no_wrap)
  then show ?thesis by (simp only: new_offset_of_def r)
qed

text \<open>Wrapped or not, the new offset is at most the exact sum.\<close>

lemma sint_new_offset_le:
  "sint (new_offset_of t) \<le> sint (cur_offset t) + uint (GetRecordSize (clock_source t))"
proof (cases "sint (cur_offset t) + uint (GetRecordSize (clock_source t)) < 2 ^ 31")
  case True
  let ?r = "ucast (GetRecordSize (clock_source t)) :: int32_t"
  have r: "sint ?r = uint (GetRecordSize (clock_source t))"
    by (rule sint_ucast_GetRecordSize)
  have "0 \<le> sint ?r" by (simp only: r) simp
  moreover have "- (2 ^ 31) \<le> sint (cur_offset t)" using sint_ge [of "cur_offset t"] by simp
  ultimately have "- (2 ^ 31) \<le> sint (cur_offset t) + sint ?r" by linarith
  moreover from True have "sint (cur_offset t) + sint ?r < 2 ^ 31" by (simp only: r)
  ultimately have "sint (cur_offset t + ?r) = sint (cur_offset t) + sint ?r"
    by (rule sint_add_no_wrap)
  then show ?thesis by (simp only: new_offset_of_def r)
next
  case False
  have "sint (new_offset_of t) < 2 ^ 31" using sint_lt [of "new_offset_of t"] by simp
  with False show ?thesis by linarith
qed

lemma reservation_fails_exact:
  "reservation_fails t \<Longrightarrow>
   sint (buffer_size t) < sint (cur_offset t) + uint (GetRecordSize (clock_source t))"
  using sint_new_offset_le [of t] by (simp add: reservation_fails_def word_sless_alt)

lemma reservation_fails_iff:
  assumes "0 \<le> sint (cur_offset t)"
    and "sint (cur_offset t) + uint (GetRecordSize (clock_source t)) < 2 ^ 31"
  shows "reservation_fails t \<longleftrightarrow>
     sint (buffer_size t) < sint (cur_offset t) + uint (GetRecordSize (clock_source t))"
  by (simp add: reservation_fails_def word_sless_alt sint_new_offset [OF assms])

lemma LogMethodTraceEvent_dropped:
  "reservation_fails t \<Longrightarrow>
   LogMethodTraceEvent dbg t clocks th m ev = Inr (t\<lparr>overflow := True\<rparr>, clocks)"
  by (simp add: LogMethodTraceEvent_def Let_def)

lemma LogMethodTraceEvent_reserved:
  assumes "\<not> reservation_fails t"
    and "LogMethodTraceEvent dbg t clocks th m ev = Inr (t', clocks')"
  shows "cur_offset t' = new_offset_of t" "buffer_size t' = buffer_size t"
    "clock_source t' = clock_source t" "overflow t' = overflow t" "start_time t' = start_time t"
    "flags t' = flags t" "trace_file t' = trace_file t"
  using assms
  by (auto simp: LogMethodTraceEvent_def Let_def split: sum.splits prod.splits)

lemma LogMethodTraceEvent_const:
  assumes "LogMethodTraceEvent dbg t clocks th m ev = Inr (t', clocks')"
  shows "buffer_size t' = buffer_size t" "clock_source t' = clock_source t"
    "start_time t' = start_time t" "flags t' = flags t" "trace_file t' = trace_file t"
  using assms
  by (auto simp: LogMethodTraceEvent_def Let_def split: sum.splits prod.splits if_splits)

lemma LogMethodTraceEvent_overflow_kept:
  assumes "overflow t" and "LogMethodTraceEvent dbg t clocks th m ev = Inr (t', clocks')"
  shows "overflow t'"
proof (cases "reservation_fails t")
  case True
  with assms(2) have "t' = t\<lparr>overflow := True\<rparr>" by (simp add: LogMethodTraceEvent_dropped)
  then show ?thesis by simp
next
  case False
  then show ?thesis using LogMethodTraceEvent_reserved(4) [OF False assms(2)] assms(1) by simp
qed

lemma step_reachable:
  assumes inv: "cursor_reachable t"
    and big: "sint (buffer_size t) + uint (GetRecordSize (clock_source t)) < 2 ^ 31"
    and step: "LogMethodTraceEvent dbg t clocks th m ev = Inr (t', clocks')"
  shows "cursor_reachable t'"
    and "sint (cur_offset t') = sint (cur_offset t)
           + (if reservation_fails t then 0 else uint (GetRecordSize (clock_source t)))"
    and "\<not> reservation_fails t \<Longrightarrow> sint (cur_offset t') \<le> sint (buffer_size t)"
proof (atomize (full), cases "reservation_fails t")
  case True
  with step have "t' = t\<lparr>overflow := True\<rparr>"
    by (simp add: LogMethodTraceEvent_dropped)
  with inv True show "cursor_reachable t' \<and>
      sint (cur_offset t') = sint (cur_offset t)
           + (if reservation_fails t then 0 else uint (GetRecordSize (clock_source t))) \<and>
      (\<not> reservation_fails t \<longrightarrow> sint (cur_offset t') \<le> sint (buffer_size t))"
    by (simp add: cursor_reachable_def)
next
  case False
  note r = LogMethodTraceEvent_reserved [OF False step]
  from inv have c: "32 \<le> sint (cur_offset t)"
    "sint (cur_offset t) \<le> max 32 (sint (buffer_size t))"
    "(sint (cur_offset t) - 32) mod uint (GetRecordSize (clock_source t)) = 0"
    by (simp_all add: cursor_reachable_def)
  have rs: "uint (GetRecordSize (clock_source t)) = 10 \<or> uint (GetRecordSize (clock_source t)) = 14"
    by (simp add: GetRecordSize_cases)
  from c(2) big rs have "sint (cur_offset t) + uint (GetRecordSize (clock_source t)) < 2 ^ 31"
    by auto
  with c(1) have n: "sint (new_offset_of t)
      = sint (cur_offset t) + uint (GetRecordSize (clock_source t))"
    by (intro sint_new_offset) linarith+
  from False have le: "sint (new_offset_of t) \<le> sint (buffer_size t)"
    by (simp add: reservation_fails_def word_sless_alt)
  have lo: "32 \<le> sint (new_offset_of t)" using c(1) n rs by linarith
  have "(sint (cur_offset t) + uint (GetRecordSize (clock_source t)) - 32)
          mod uint (GetRecordSize (clock_source t)) = 0"
    using c(3) by (metis add_diff_eq diff_add_eq mod_add_self2)
  then have al: "(sint (new_offset_of t) - 32) mod uint (GetRecordSize (clock_source t)) = 0"
    by (simp only: n)
  show "cursor_reachable t' \<and>
      sint (cur_offset t') = sint (cur_offset t)
           + (if reservation_fails t then 0 else uint (GetRecordSize (clock_source t))) \<and>
      (\<not> reservation_fails t \<longrightarrow> sint (cur_offset t') \<le> sint (buffer_size t))"
    using lo al le n False by (simp add: cursor_reachable_def r)
qed

lemma run_reachable:
  assumes "cursor_reachable t"
    and "sint (buffer_size t) + uint (GetRecordSize (clock_source t)) < 2 ^ 31"
    and "log_events dbg t clocks calls = Inr (t', clocks')"
  shows "cursor_reachable t' \<and> buffer_size t' = buffer_size t \<and> clock_source t' = clock_source t
         \<and> sint (cur_offset t') = sint (cur_offset t)
              + uint (GetRecordSize (clock_source t)) * int (reserved_count dbg t clocks calls)"
  using assms
proof (induction calls arbitrary: t clocks)
  case Nil
  then show ?case by simp
next
  case (Cons call calls)
  obtain th m ev where call: "call = (th, m, ev)" by (cases call) auto
  from Cons.prems(3) obtain t1 c1 where
    step: "LogMethodTraceEvent dbg t clocks th m ev = Inr (t1, c1)"
    and rest: "log_events dbg t1 c1 calls = Inr (t', clocks')"
    by (auto simp: call split: sum.splits)
  note k = LogMethodTraceEvent_const [OF step]
  note s = step_reachable [OF Cons.prems(1,2) step]
  have "cursor_reachable t' \<and> buffer_size t' = buffer_size t1 \<and> clock_source t' = clock_source t1
         \<and> sint (cur_offset t') = sint (cur_offset t1)
              + uint (GetRecordSize (clock_source t1)) * int (reserved_count dbg t1 c1 calls)"
    using Cons.prems(2) by (intro Cons.IH [OF s(1) _ rest]) (simp add: k)
  then show ?case
    by (simp add: call step k s(2) algebra_simps)
qed

lemma cursor_reachable_iff:
  "32 \<le> sint (buffer_size t) \<Longrightarrow> cursor_reachable t \<longleftrightarrow> cursor_invariant t"
  by (simp add: cursor_reachable_def cursor_invariant_def max_def)

lemma constructed_reachable: "cursor_reachable (fst (Trace_Trace heap clk clocks f bs fl))"
  by (simp add: cursor_reachable_def constructed_fields)

lemma LogMethodTraceEvent_total:
  assumes "event_action ev = Inr a" and "m AND 3 = 0 \<or> \<not> dbg"
  shows "\<exists>t' clocks'. LogMethodTraceEvent dbg t clocks th m ev = Inr (t', clocks')"
proof -
  have "\<exists>v. EncodeTraceMethodAndAction dbg m a = Inr v"
    using assms(2) decode_method_of_packed [of m a]
    by (auto simp: EncodeTraceMethodAndAction_def)
  then show ?thesis
    using assms(1)
    by (auto simp: LogMethodTraceEvent_def Let_def split: prod.splits)
qed

text \<open>
  Claim C3, as amended. Let the buffer size be at least the header length 32 and at most
  \<open>2\<^sup>3\<^sup>1 - 1\<close> minus the record size. Then after the constructor and after any sequence
  of log calls that returns, the cursor is at least 32, at most the buffer size, and a
  whole number of records (10 bytes for a single clock, 14 for the dual one) past 32;
  it is not below its value after construction, and no further log call decreases it.
\<close>

theorem cursor_invariant_kept:
  assumes "32 \<le> sint bs" and "sint bs + uint (GetRecordSize clk) < 2 ^ 31"
    and "Trace_Trace heap clk clocks0 f bs fl = (t0, clocks1)"
    and "log_events dbg t0 clocks1 calls = Inr (t, clocks2)"
  shows "cursor_invariant t0 \<and> cursor_invariant t
         \<and> uint (GetRecordSize (clock_source t)) = (if clk = kProfilerClockSourceDual then 14 else 10)
         \<and> buffer_size t = bs
         \<and> sint (cur_offset t0) \<le> sint (cur_offset t)
         \<and> (\<forall>th m ev t' clocks3.
               LogMethodTraceEvent dbg t clocks2 th m ev = Inr (t', clocks3)
               \<longrightarrow> sint (cur_offset t) \<le> sint (cur_offset t'))"
proof -
  from assms(3) have t0: "t0 = fst (Trace_Trace heap clk clocks0 f bs fl)" by simp
  have r0: "cursor_reachable t0" unfolding t0 by (rule constructed_reachable)
  have k0: "buffer_size t0 = bs" "clock_source t0 = clk" by (simp_all add: t0 constructed_fields)
  from assms(2) have big0: "sint (buffer_size t0) + uint (GetRecordSize (clock_source t0)) < 2 ^ 31"
    by (simp only: k0)
  note run = run_reachable [OF r0 big0 assms(4)]
  from run have r: "cursor_reachable t" and k: "buffer_size t = bs" "clock_source t = clk"
    by (simp_all add: k0)
  have i0: "cursor_invariant t0" using r0 assms(1) by (simp add: cursor_reachable_iff k0)
  have i: "cursor_invariant t" using r assms(1) by (simp add: cursor_reachable_iff k)
  have mono: "sint (cur_offset t0) \<le> sint (cur_offset t)"
    using run by (simp add: GetRecordSize_cases)
  from assms(2) have big: "sint (buffer_size t) + uint (GetRecordSize (clock_source t)) < 2 ^ 31"
    by (simp only: k)
  have next_call: "sint (cur_offset t) \<le> sint (cur_offset t')"
    if "LogMethodTraceEvent dbg t clocks2 th m ev = Inr (t', clocks3)"
    for th m ev t' clocks3
    using step_reachable(2) [OF r big that] by (simp add: GetRecordSize_cases)
  show ?thesis
    using i0 i mono next_call k by (simp add: GetRecordSize_cases)
qed

theorem cursor_invariant_kept_witness:
  "32 \<le> sint (64 :: int32_t)
   \<and> sint (64 :: int32_t) + uint (GetRecordSize kProfilerClockSourceWall) < 2 ^ 31
   \<and> (\<exists>t0 clocks1 t clocks2.
         Trace_Trace zero_memory kProfilerClockSourceWall example_clocks None 64 0 = (t0, clocks1)
         \<and> log_events True t0 clocks1 [(example_thread, example_method, kMethodEntered)]
              = Inr (t, clocks2)
         \<and> cursor_invariant t \<and> sint (cur_offset t0) \<le> sint (cur_offset t))"
proof -
  have a: "32 \<le> sint (64 :: int32_t)" by simp
  have b: "sint (64 :: int32_t) + uint (GetRecordSize kProfilerClockSourceWall) < 2 ^ 31"
    by (simp add: GetRecordSize_cases)
  obtain t0 clocks1 where
    c: "Trace_Trace zero_memory kProfilerClockSourceWall example_clocks None 64 0 = (t0, clocks1)"
    by (cases "Trace_Trace zero_memory kProfilerClockSourceWall example_clocks None 64 0")
  have "example_method AND 3 = 0 \<or> \<not> True" by (simp add: example_method_def)
  from LogMethodTraceEvent_total [OF event_action.simps(1) this]
  obtain t clocks2 where
    "LogMethodTraceEvent True t0 clocks1 example_thread example_method kMethodEntered
       = Inr (t, clocks2)"
    by blast
  then have d: "log_events True t0 clocks1 [(example_thread, example_method, kMethodEntered)]
      = Inr (t, clocks2)"
    by simp
  show ?thesis
    using cursor_invariant_kept [OF a b c d] a b c d by blast
qed

text \<open>
  The claim as stated has no bound on the buffer size: the constructor sets the cursor to
  32 whatever the size is, so with a buffer of 16 bytes the cursor is past the buffer
  size as soon as the tracer is constructed.
\<close>

theorem cursor_invariant_small_buffer_counterexample:
  "\<not> cursor_invariant
        (fst (Trace_Trace zero_memory kProfilerClockSourceWall example_clocks None 16 0))
   \<and> sint (cur_offset
        (fst (Trace_Trace zero_memory kProfilerClockSourceWall example_clocks None 16 0))) = 32
   \<and> sint (buffer_size
        (fst (Trace_Trace zero_memory kProfilerClockSourceWall example_clocks None 16 0))) = 16"
  by (simp add: cursor_invariant_def constructed_fields)

text \<open>
  Why the buffer size is also bounded from above: with a buffer of \<open>2\<^sup>3\<^sup>1 - 1\<close> bytes
  and the cursor at \<open>2\<^sup>3\<^sup>1 - 6\<close>, where 214748361 records of 10 bytes have been
  reserved, the sum \<^verbatim>\<open>old_offset + 10\<close> is past the largest \<^verbatim>\<open>int32_t\<close>; wrapped
  around it is negative, so the test against the buffer size lets the call through and
  the cursor becomes negative.
\<close>

lemma cursor_wraps_past_int_max:
  "cursor_invariant
     ((fst (Trace_Trace zero_memory kProfilerClockSourceWall example_clocks None 0x7FFFFFFF 0))
        \<lparr>cur_offset := 0x7FFFFFFA\<rparr>)
   \<and> (\<exists>t' clocks'.
         LogMethodTraceEvent True
           ((fst (Trace_Trace zero_memory kProfilerClockSourceWall example_clocks None 0x7FFFFFFF 0))
              \<lparr>cur_offset := 0x7FFFFFFA\<rparr>)
           example_clocks example_thread example_method kMethodEntered = Inr (t', clocks')
         \<and> sint (cur_offset t') = - 2147483644
         \<and> \<not> cursor_invariant t')"
proof -
  let ?t = "(fst (Trace_Trace zero_memory kProfilerClockSourceWall example_clocks None 0x7FFFFFFF 0))
        \<lparr>cur_offset := 0x7FFFFFFA\<rparr>"
  have k: "cur_offset ?t = 0x7FFFFFFA" "buffer_size ?t = 0x7FFFFFFF"
    "clock_source ?t = kProfilerClockSourceWall"
    by (simp_all add: constructed_fields)
  have inv: "cursor_invariant ?t"
    by (simp add: cursor_invariant_def k GetRecordSize_cases)
  have n: "new_offset_of ?t = 0x80000004"
    by (simp add: new_offset_of_def k GetRecordSize_cases)
  have ok: "\<not> reservation_fails ?t"
    by (simp add: reservation_fails_def n k)
  have al: "example_method AND 3 = 0 \<or> \<not> True" by (simp add: example_method_def)
  from LogMethodTraceEvent_total [OF event_action.simps(1) al]
  obtain t' clocks' where
    step: "LogMethodTraceEvent True ?t example_clocks example_thread example_method kMethodEntered
             = Inr (t', clocks')"
    by blast
  have c: "cur_offset t' = 0x80000004"
    using LogMethodTraceEvent_reserved(1) [OF ok step] by (simp only: n)
  then have s: "sint (cur_offset t') = - 2147483644" by simp
  then have "\<not> cursor_invariant t'" by (simp add: cursor_invariant_def)
  with inv step s show ?thesis by blast
qed

section \<open>Overflow of the buffer\<close>

lemma scenario_42_first:
  assumes "Trace_Trace heap kProfilerClockSourceWall clocks f 42 fl = (t0, clocks0)"
    and "LogMethodTraceEvent dbg t0 clocks0 th m ev = Inr (t1, clocks1)"
  shows "\<not> reservation_fails t0" "cur_offset t1 = 42" "\<not> overflow t1" "reservation_fails t1"
proof -
  from assms(1) have t0: "t0 = fst (Trace_Trace heap kProfilerClockSourceWall clocks f 42 fl)"
    by simp
  have k0: "cur_offset t0 = 32" "buffer_size t0 = 42" "clock_source t0 = kProfilerClockSourceWall"
    "\<not> overflow t0"
    by (simp_all add: t0 constructed_fields)
  show ok: "\<not> reservation_fails t0"
    by (simp add: reservation_fails_def new_offset_of_def k0 GetRecordSize_cases)
  note r = LogMethodTraceEvent_reserved [OF ok assms(2)]
  show c: "cur_offset t1 = 42"
    by (simp add: r new_offset_of_def k0 GetRecordSize_cases)
  show "\<not> overflow t1" by (simp add: r k0)
  show "reservation_fails t1"
    by (simp add: reservation_fails_def new_offset_of_def c r k0 GetRecordSize_cases)
qed

lemma reservation_fails_no_wrap:
  assumes "sint (cur_offset t) + uint (GetRecordSize (clock_source t)) < 2 ^ 31"
  shows "reservation_fails t \<longleftrightarrow>
     sint (buffer_size t) < sint (cur_offset t) + uint (GetRecordSize (clock_source t))"
proof -
  let ?r = "ucast (GetRecordSize (clock_source t)) :: int32_t"
  have r: "sint ?r = uint (GetRecordSize (clock_source t))"
    by (rule sint_ucast_GetRecordSize)
  have "0 \<le> sint ?r" by (simp only: r) simp
  moreover have "- (2 ^ 31) \<le> sint (cur_offset t)" using sint_ge [of "cur_offset t"] by simp
  ultimately have "- (2 ^ 31) \<le> sint (cur_offset t) + sint ?r" by linarith
  moreover from assms have "sint (cur_offset t) + sint ?r < 2 ^ 31" by (simp only: r)
  ultimately have "sint (cur_offset t + ?r) = sint (cur_offset t) + sint ?r"
    by (rule sint_add_no_wrap)
  then have "sint (new_offset_of t) = sint (cur_offset t) + uint (GetRecordSize (clock_source t))"
    by (simp only: new_offset_of_def r)
  then show ?thesis by (simp add: reservation_fails_def word_sless_alt)
qed

lemma overflow_set_only_by_drop:
  assumes "\<not> overflow t" and "LogMethodTraceEvent dbg t clocks th m ev = Inr (t', clocks')"
    and "overflow t'"
  shows "reservation_fails t"
proof (rule ccontr)
  assume "\<not> reservation_fails t"
  from LogMethodTraceEvent_reserved(4) [OF this assms(2)] assms(1,3) show False by simp
qed

lemma never_fails_at_int_max: "buffer_size t = 0x7FFFFFFF \<Longrightarrow> \<not> reservation_fails t"
  using sint_lt [of "new_offset_of t"] by (simp add: reservation_fails_def word_sless_alt)

lemma run_at_int_max:
  assumes "buffer_size t = 0x7FFFFFFF" and "event_action ev = Inr a" and "m AND 3 = 0 \<or> \<not> dbg"
  shows "\<exists>t' c'. log_events dbg t c (replicate n (th, m, ev)) = Inr (t', c')
           \<and> cur_offset t' = cur_offset t + of_nat n * ucast (GetRecordSize (clock_source t))
           \<and> clock_source t' = clock_source t
           \<and> reserved_count dbg t c (replicate n (th, m, ev)) = n"
  using assms(1)
proof (induction n arbitrary: t c)
  case 0
  show ?case by simp
next
  case (Suc n)
  have ok: "\<not> reservation_fails t" using Suc.prems by (rule never_fails_at_int_max)
  from LogMethodTraceEvent_total [OF assms(2,3)]
  obtain t1 c1 where step: "LogMethodTraceEvent dbg t c th m ev = Inr (t1, c1)" by blast
  note r = LogMethodTraceEvent_reserved [OF ok step]
  from Suc.IH [of t1 c1] r(2) Suc.prems
  obtain t' c' where rest: "log_events dbg t1 c1 (replicate n (th, m, ev)) = Inr (t', c')"
    and cur: "cur_offset t' = cur_offset t1 + of_nat n * ucast (GetRecordSize (clock_source t1))"
    and clk: "clock_source t' = clock_source t1"
    and cnt: "reserved_count dbg t1 c1 (replicate n (th, m, ev)) = n"
    by auto
  have "cur_offset t' = cur_offset t + of_nat (Suc n) * ucast (GetRecordSize (clock_source t))"
    by (simp add: cur r new_offset_of_def algebra_simps)
  then show ?case
    using rest clk cnt ok by (simp add: step r)
qed



lemma run_at_int_max_flags:
  assumes "buffer_size t = 0x7FFFFFFF" and "event_action ev = Inr a" and "m AND 3 = 0 \<or> \<not> dbg"
    and "log_events dbg t c (replicate n (th, m, ev)) = Inr (t', c')"
  shows "overflow t' = overflow t \<and> buffer_size t' = buffer_size t"
  using assms(1,4)
proof (induction n arbitrary: t c)
  case 0
  then show ?case by simp
next
  case (Suc n)
  have ok: "\<not> reservation_fails t" using Suc.prems(1) by (rule never_fails_at_int_max)
  from Suc.prems(2) obtain t1 c1 where
    step: "LogMethodTraceEvent dbg t c th m ev = Inr (t1, c1)"
    and rest: "log_events dbg t1 c1 (replicate n (th, m, ev)) = Inr (t', c')"
    by (auto split: sum.splits)
  note r = LogMethodTraceEvent_reserved [OF ok step]
  from Suc.IH [OF _ rest] r(2) Suc.prems(1)
  show ?case by (simp add: r)
qed

lemma run_no_wrap:
  assumes "sint bs + uint (GetRecordSize clk) < 2 ^ 31"
    and "Trace_Trace heap clk clocks_init f bs fl = (s0, sclocks0)"
    and "log_events dbg s0 sclocks0 calls = Inr (t, clocks)"
  shows "sint (cur_offset t) + uint (GetRecordSize (clock_source t)) < 2 ^ 31"
proof -
  from assms(2) have s0: "s0 = fst (Trace_Trace heap clk clocks_init f bs fl)" by simp
  have r0: "cursor_reachable s0" unfolding s0 by (rule constructed_reachable)
  have k0: "buffer_size s0 = bs" "clock_source s0 = clk" by (simp_all add: s0 constructed_fields)
  from assms(1) have big0: "sint (buffer_size s0) + uint (GetRecordSize (clock_source s0)) < 2 ^ 31"
    by (simp only: k0)
  note run = run_reachable [OF r0 big0 assms(3)]
  from run have r: "cursor_reachable t" and k: "buffer_size t = bs" "clock_source t = clk"
    by (simp_all add: k0)
  from r have "sint (cur_offset t) \<le> max 32 (sint bs)"
    by (simp add: cursor_reachable_def k)
  with assms(1) show ?thesis
    by (auto simp: k GetRecordSize_cases max_def split: if_splits)
qed

text \<open>
  Claim C4, as amended. Take a log call made when the cursor plus the record size is at
  most \<open>2\<^sup>3\<^sup>1 - 1\<close>, as it is in every state a run from the constructor reaches when the
  buffer size is at most \<open>2\<^sup>3\<^sup>1 - 1\<close> minus the record size. If the cursor plus the
  record size exceeds the buffer size, the call returns with the overflow flag set, the
  event dropped and the cursor and the buffer as they were. A call whose reservation
  fails does so in any state, and whenever a call sets the flag, the cursor plus the
  record size exceeds the buffer size and the cursor has not moved. A log call never
  resets a set overflow flag. With a buffer of 42 bytes and the wall clock, the first of
  two log calls is reserved and moves the cursor to 42, the second fails, sets the flag
  and leaves the cursor at 42.
\<close>

theorem overflow_drops_event:
  "(sint (cur_offset t) + uint (GetRecordSize (clock_source t)) < 2 ^ 31
      \<and> sint (buffer_size t) < sint (cur_offset t) + uint (GetRecordSize (clock_source t))
    \<longrightarrow> LogMethodTraceEvent dbg t clocks th m ev = Inr (t\<lparr>overflow := True\<rparr>, clocks)
        \<and> overflow (t\<lparr>overflow := True\<rparr>)
        \<and> cur_offset (t\<lparr>overflow := True\<rparr>) = cur_offset t
        \<and> buf (t\<lparr>overflow := True\<rparr>) = buf t)
   \<and> (sint bs + uint (GetRecordSize clk) < 2 ^ 31
        \<and> Trace_Trace heap clk clocks_init f bs fl = (s0, sclocks0)
        \<and> log_events dbg s0 sclocks0 calls = Inr (t, clocks)
      \<longrightarrow> sint (cur_offset t) + uint (GetRecordSize (clock_source t)) < 2 ^ 31)
   \<and> (reservation_fails t \<longrightarrow>
        LogMethodTraceEvent dbg t clocks th m ev = Inr (t\<lparr>overflow := True\<rparr>, clocks)
        \<and> sint (buffer_size t) < sint (cur_offset t) + uint (GetRecordSize (clock_source t)))
   \<and> (\<not> overflow t \<and> LogMethodTraceEvent dbg t clocks th m ev = Inr (t', clocks') \<and> overflow t'
      \<longrightarrow> sint (buffer_size t) < sint (cur_offset t) + uint (GetRecordSize (clock_source t))
          \<and> cur_offset t' = cur_offset t \<and> buf t' = buf t)
   \<and> (overflow t \<and> LogMethodTraceEvent dbg t clocks th m ev = Inr (t', clocks')
      \<longrightarrow> overflow t')
   \<and> (Trace_Trace heap2 kProfilerClockSourceWall clocks_init2 f2 42 fl2 = (t0, clocks0)
        \<and> LogMethodTraceEvent dbg t0 clocks0 th1 m1 ev1 = Inr (t1, clocks1)
        \<and> LogMethodTraceEvent dbg t1 clocks1 th2 m2 ev2 = Inr (t2, clocks2)
      \<longrightarrow> \<not> reservation_fails t0 \<and> \<not> overflow t1 \<and> sint (cur_offset t1) = 42
          \<and> reservation_fails t1 \<and> overflow t2 \<and> sint (cur_offset t2) = 42
          \<and> buf t2 = buf t1)"
proof (intro conjI impI)
  assume a: "sint (cur_offset t) + uint (GetRecordSize (clock_source t)) < 2 ^ 31
      \<and> sint (buffer_size t) < sint (cur_offset t) + uint (GetRecordSize (clock_source t))"
  then have "reservation_fails t" by (simp add: reservation_fails_no_wrap)
  then show "LogMethodTraceEvent dbg t clocks th m ev = Inr (t\<lparr>overflow := True\<rparr>, clocks)"
    by (rule LogMethodTraceEvent_dropped)
next
  assume "sint bs + uint (GetRecordSize clk) < 2 ^ 31
        \<and> Trace_Trace heap clk clocks_init f bs fl = (s0, sclocks0)
        \<and> log_events dbg s0 sclocks0 calls = Inr (t, clocks)"
  then show "sint (cur_offset t) + uint (GetRecordSize (clock_source t)) < 2 ^ 31"
    using run_no_wrap by blast
next
  assume f: "reservation_fails t"
  show "LogMethodTraceEvent dbg t clocks th m ev = Inr (t\<lparr>overflow := True\<rparr>, clocks)"
    using f by (rule LogMethodTraceEvent_dropped)
  show "sint (buffer_size t) < sint (cur_offset t) + uint (GetRecordSize (clock_source t))"
    using f by (rule reservation_fails_exact)
next
  assume a: "\<not> overflow t \<and> LogMethodTraceEvent dbg t clocks th m ev = Inr (t', clocks')
      \<and> overflow t'"
  then have f: "reservation_fails t" using overflow_set_only_by_drop by blast
  with a have t': "t' = t\<lparr>overflow := True\<rparr>" by (simp add: LogMethodTraceEvent_dropped)
  show "sint (buffer_size t) < sint (cur_offset t) + uint (GetRecordSize (clock_source t))"
    using f by (rule reservation_fails_exact)
  show "cur_offset t' = cur_offset t" "buf t' = buf t" by (simp_all add: t')
next
  assume "overflow t \<and> LogMethodTraceEvent dbg t clocks th m ev = Inr (t', clocks')"
  then show "overflow t'" using LogMethodTraceEvent_overflow_kept by blast
next
  assume a: "Trace_Trace heap2 kProfilerClockSourceWall clocks_init2 f2 42 fl2 = (t0, clocks0)
        \<and> LogMethodTraceEvent dbg t0 clocks0 th1 m1 ev1 = Inr (t1, clocks1)
        \<and> LogMethodTraceEvent dbg t1 clocks1 th2 m2 ev2 = Inr (t2, clocks2)"
  note s = scenario_42_first [OF a [THEN conjunct1] a [THEN conjunct2, THEN conjunct1]]
  from s(4) a have t2: "t2 = t1\<lparr>overflow := True\<rparr>"
    by (simp add: LogMethodTraceEvent_dropped)
  show "\<not> reservation_fails t0" "\<not> overflow t1" "reservation_fails t1" by (rule s)+
  show "sint (cur_offset t1) = 42" by (simp add: s(2))
  show "overflow t2" by (simp add: t2)
  show "sint (cur_offset t2) = 42" by (simp add: t2 s(2))
  show "buf t2 = buf t1" by (simp add: t2)
qed simp_all

theorem overflow_drops_event_witness:
  "\<exists>t0 clocks0 t1 clocks1 t2 clocks2.
     sint (42 :: int32_t) + uint (GetRecordSize kProfilerClockSourceWall) < 2 ^ 31
     \<and> Trace_Trace zero_memory kProfilerClockSourceWall example_clocks None 42 0 = (t0, clocks0)
     \<and> log_events True t0 clocks0 [(example_thread, example_method, kMethodEntered)]
           = Inr (t1, clocks1)
     \<and> LogMethodTraceEvent True t0 clocks0 example_thread example_method kMethodEntered
           = Inr (t1, clocks1)
     \<and> sint (cur_offset t1) + uint (GetRecordSize (clock_source t1)) < 2 ^ 31
     \<and> sint (buffer_size t1) < sint (cur_offset t1) + uint (GetRecordSize (clock_source t1))
     \<and> LogMethodTraceEvent True t1 clocks1 example_thread example_method kMethodExited
           = Inr (t2, clocks2)
     \<and> reservation_fails t1
     \<and> t2 = t1\<lparr>overflow := True\<rparr>
     \<and> \<not> overflow t1 \<and> overflow t2
     \<and> sint (cur_offset t1) = 42 \<and> sint (cur_offset t2) = 42"
proof -
  have big: "sint (42 :: int32_t) + uint (GetRecordSize kProfilerClockSourceWall) < 2 ^ 31"
    by (simp add: GetRecordSize_cases)
  obtain t0 clocks0 where
    a: "Trace_Trace zero_memory kProfilerClockSourceWall example_clocks None 42 0 = (t0, clocks0)"
    by (cases "Trace_Trace zero_memory kProfilerClockSourceWall example_clocks None 42 0")
  have al: "example_method AND 3 = 0 \<or> \<not> True" by (simp add: example_method_def)
  from LogMethodTraceEvent_total [OF event_action.simps(1) al]
  obtain t1 clocks1 where
    b: "LogMethodTraceEvent True t0 clocks0 example_thread example_method kMethodEntered
          = Inr (t1, clocks1)"
    by blast
  then have run: "log_events True t0 clocks0 [(example_thread, example_method, kMethodEntered)]
      = Inr (t1, clocks1)"
    by simp
  from LogMethodTraceEvent_total [OF event_action.simps(2) al]
  obtain t2 clocks2 where
    c: "LogMethodTraceEvent True t1 clocks1 example_thread example_method kMethodExited
          = Inr (t2, clocks2)"
    by blast
  note inst = overflow_drops_event [where t = t1 and dbg = True and clocks = clocks1
      and th = example_thread and m = example_method and ev = kMethodExited
      and t' = t2 and clocks' = clocks2
      and bs = 42 and clk = kProfilerClockSourceWall
      and heap = zero_memory and clocks_init = example_clocks and f = None and fl = 0
      and ?s0.0 = t0 and ?sclocks0.0 = clocks0
      and calls = "[(example_thread, example_method, kMethodEntered)]"
      and ?heap2.0 = zero_memory and ?clocks_init2.0 = example_clocks and ?f2.0 = None
      and ?fl2.0 = 0
      and ?t0.0 = t0 and ?clocks0.0 = clocks0 and ?th1.0 = example_thread
      and ?m1.0 = example_method and ?ev1.0 = kMethodEntered and ?t1.0 = t1
      and ?clocks1.0 = clocks1 and ?th2.0 = example_thread and ?m2.0 = example_method
      and ?ev2.0 = kMethodExited and ?t2.0 = t2 and ?clocks2.0 = clocks2]
  from inst a b c have s: "reservation_fails t1" "\<not> overflow t1" "overflow t2"
    "sint (cur_offset t1) = 42" "sint (cur_offset t2) = 42"
    by blast+
  from inst big a run
  have nowrap: "sint (cur_offset t1) + uint (GetRecordSize (clock_source t1)) < 2 ^ 31"
    by blast
  from inst s(2,3) c
  have past: "sint (buffer_size t1) < sint (cur_offset t1) + uint (GetRecordSize (clock_source t1))"
    by blast
  from inst nowrap past c have d: "t2 = t1\<lparr>overflow := True\<rparr>"
    by simp
  show ?thesis using big a run b nowrap past c s d by blast
qed

text \<open>
  The claim as stated has no bound on the cursor. With a buffer of \<open>2\<^sup>3\<^sup>1 - 1\<close> bytes and
  the wall clock, 214748361 log calls from the constructor bring the cursor to
  \<open>2\<^sup>3\<^sup>1 - 6\<close>. There the cursor plus the record size 10 exceeds the buffer size, but
  the sum wraps around in \<^verbatim>\<open>int32_t\<close>, the test \<^verbatim>\<open>new_offset > buffer_size_\<close> does not
  hold, and the next call is logged: the overflow flag stays clear and the cursor moves.
\<close>

theorem overflow_missed_at_int_max_counterexample:
  "cur_offset (fst (projr (log_events True
        (fst (Trace_Trace zero_memory kProfilerClockSourceWall example_clocks None 0x7FFFFFFF 0))
        (snd (Trace_Trace zero_memory kProfilerClockSourceWall example_clocks None 0x7FFFFFFF 0))
        (replicate 214748361 (example_thread, example_method, kMethodEntered))))) = 0x7FFFFFFA
   \<and> buffer_size (fst (projr (log_events True
        (fst (Trace_Trace zero_memory kProfilerClockSourceWall example_clocks None 0x7FFFFFFF 0))
        (snd (Trace_Trace zero_memory kProfilerClockSourceWall example_clocks None 0x7FFFFFFF 0))
        (replicate 214748361 (example_thread, example_method, kMethodEntered))))) = 0x7FFFFFFF
   \<and> sint (buffer_size (fst (projr (log_events True
        (fst (Trace_Trace zero_memory kProfilerClockSourceWall example_clocks None 0x7FFFFFFF 0))
        (snd (Trace_Trace zero_memory kProfilerClockSourceWall example_clocks None 0x7FFFFFFF 0))
        (replicate 214748361 (example_thread, example_method, kMethodEntered))))))
       < sint (cur_offset (fst (projr (log_events True
        (fst (Trace_Trace zero_memory kProfilerClockSourceWall example_clocks None 0x7FFFFFFF 0))
        (snd (Trace_Trace zero_memory kProfilerClockSourceWall example_clocks None 0x7FFFFFFF 0))
        (replicate 214748361 (example_thread, example_method, kMethodEntered))))))
         + uint (GetRecordSize (clock_source (fst (projr (log_events True
        (fst (Trace_Trace zero_memory kProfilerClockSourceWall example_clocks None 0x7FFFFFFF 0))
        (snd (Trace_Trace zero_memory kProfilerClockSourceWall example_clocks None 0x7FFFFFFF 0))
        (replicate 214748361 (example_thread, example_method, kMethodEntered)))))))
   \<and> \<not> isl (LogMethodTraceEvent True
        (fst (projr (log_events True
        (fst (Trace_Trace zero_memory kProfilerClockSourceWall example_clocks None 0x7FFFFFFF 0))
        (snd (Trace_Trace zero_memory kProfilerClockSourceWall example_clocks None 0x7FFFFFFF 0))
        (replicate 214748361 (example_thread, example_method, kMethodEntered)))))
        (snd (projr (log_events True
        (fst (Trace_Trace zero_memory kProfilerClockSourceWall example_clocks None 0x7FFFFFFF 0))
        (snd (Trace_Trace zero_memory kProfilerClockSourceWall example_clocks None 0x7FFFFFFF 0))
        (replicate 214748361 (example_thread, example_method, kMethodEntered)))))
        example_thread example_method kMethodEntered)
   \<and> \<not> overflow (fst (projr (LogMethodTraceEvent True
        (fst (projr (log_events True
        (fst (Trace_Trace zero_memory kProfilerClockSourceWall example_clocks None 0x7FFFFFFF 0))
        (snd (Trace_Trace zero_memory kProfilerClockSourceWall example_clocks None 0x7FFFFFFF 0))
        (replicate 214748361 (example_thread, example_method, kMethodEntered)))))
        (snd (projr (log_events True
        (fst (Trace_Trace zero_memory kProfilerClockSourceWall example_clocks None 0x7FFFFFFF 0))
        (snd (Trace_Trace zero_memory kProfilerClockSourceWall example_clocks None 0x7FFFFFFF 0))
        (replicate 214748361 (example_thread, example_method, kMethodEntered)))))
        example_thread example_method kMethodEntered)))
   \<and> cur_offset (fst (projr (LogMethodTraceEvent True
        (fst (projr (log_events True
        (fst (Trace_Trace zero_memory kProfilerClockSourceWall example_clocks None 0x7FFFFFFF 0))
        (snd (Trace_Trace zero_memory kProfilerClockSourceWall example_clocks None 0x7FFFFFFF 0))
        (replicate 214748361 (example_thread, example_method, kMethodEntered)))))
        (snd (projr (log_events True
        (fst (Trace_Trace zero_memory kProfilerClockSourceWall example_clocks None 0x7FFFFFFF 0))
        (snd (Trace_Trace zero_memory kProfilerClockSourceWall example_clocks None 0x7FFFFFFF 0))
        (replicate 214748361 (example_thread, example_method, kMethodEntered)))))
        example_thread example_method kMethodEntered))) = 0x80000004"
proof -
  let ?t0 = "fst (Trace_Trace zero_memory kProfilerClockSourceWall example_clocks None 0x7FFFFFFF 0)"
  let ?c0 = "snd (Trace_Trace zero_memory kProfilerClockSourceWall example_clocks None 0x7FFFFFFF 0)"
  let ?call = "(example_thread, example_method, kMethodEntered)"
  have k: "cur_offset ?t0 = 32" "buffer_size ?t0 = 0x7FFFFFFF"
    "clock_source ?t0 = kProfilerClockSourceWall" "\<not> overflow ?t0"
    by (simp_all add: constructed_fields)
  have al: "example_method AND 3 = 0 \<or> \<not> True" by (simp add: example_method_def)
  from run_at_int_max [OF k(2) event_action.simps(1) al, of ?c0 214748361 example_thread]
  obtain t c where run: "log_events True ?t0 ?c0 (replicate 214748361 ?call) = Inr (t, c)"
    and cur: "cur_offset t = cur_offset ?t0
        + of_nat 214748361 * ucast (GetRecordSize (clock_source ?t0))"
    and clk: "clock_source t = clock_source ?t0"
    by blast
  from cur have c1: "cur_offset t = 0x7FFFFFFA"
    by (simp only: k) (simp add: GetRecordSize_cases)
  note fl = run_at_int_max_flags [OF k(2) event_action.simps(1) al run]
  from fl have b: "buffer_size t = 0x7FFFFFFF" and o: "\<not> overflow t" by (simp_all add: k)
  have past: "sint (buffer_size t) < sint (cur_offset t) + uint (GetRecordSize (clock_source t))"
    by (simp only: c1 b clk k) (simp add: GetRecordSize_cases)
  have ok: "\<not> reservation_fails t" using b by (rule never_fails_at_int_max)
  from LogMethodTraceEvent_total [OF event_action.simps(1) al]
  obtain t' c' where
    step: "LogMethodTraceEvent True t c example_thread example_method kMethodEntered = Inr (t', c')"
    by blast
  note r = LogMethodTraceEvent_reserved [OF ok step]
  have c2: "cur_offset t' = 0x80000004"
    by (simp add: r(1) new_offset_of_def c1 clk k GetRecordSize_cases)
  have o': "\<not> overflow t'" by (simp add: r(4) o)
  have sel: "fst (projr (log_events True ?t0 ?c0 (replicate 214748361 ?call))) = t"
    "snd (projr (log_events True ?t0 ?c0 (replicate 214748361 ?call))) = c"
    by (simp_all add: run)
  show ?thesis
    unfolding sel using c1 b past c2 o' by (simp add: step)
qed

section \<open>The per-thread CPU clock base\<close>

lemma parse_u32_le_Append4LE_other:
  "p + 4 \<le> q \<or> q + 4 \<le> p \<Longrightarrow> parse_u32_le (Append4LE mem q w) p = parse_u32_le mem p"
  by (auto simp: parse_u32_le_def Append4LE_def)

lemma log_thread_clock_miss:
  assumes "UseThreadCpuClock t" and "thread_clock_base_map t (thread_address th) = None"
  shows "log_thread_clock t clocks th mem ptr =
           (Append4LE mem ptr 0,
            (thread_clock_base_map t)(thread_address th \<mapsto> cpu_samples clocks (cpu_reads clocks)),
            clocks\<lparr>cpu_reads := Suc (cpu_reads clocks)\<rparr>, ptr + 4)"
  using assms by (simp add: log_thread_clock_def ThreadCpuMicroTime_def)

lemma log_thread_clock_hit:
  assumes "UseThreadCpuClock t" and "thread_clock_base_map t (thread_address th) = Some base"
  shows "log_thread_clock t clocks th mem ptr =
           (Append4LE mem ptr (ucast (cpu_samples clocks (cpu_reads clocks) - base)),
            thread_clock_base_map t,
            clocks\<lparr>cpu_reads := Suc (cpu_reads clocks)\<rparr>, ptr + 4)"
  using assms by (simp add: log_thread_clock_def ThreadCpuMicroTime_def)

lemma log_wall_clock_after:
  "parse_u32_le (fst (log_wall_clock t clocks mem (ptr + 4))) ptr = parse_u32_le mem ptr"
  by (simp add: log_wall_clock_def MicroTime_def parse_u32_le_Append4LE_other)

lemma log_wall_clock_cpu_reads:
  "cpu_reads (snd (log_wall_clock t clocks mem ptr)) = cpu_reads clocks"
  "cpu_samples (snd (log_wall_clock t clocks mem ptr)) = cpu_samples clocks"
  by (simp_all add: log_wall_clock_def MicroTime_def)

text \<open>What a reserved call with the thread-CPU clock in use leaves behind.\<close>

lemma LogMethodTraceEvent_thread_clock:
  assumes cpu: "UseThreadCpuClock t" and ok: "\<not> reservation_fails t"
    and step: "LogMethodTraceEvent dbg t clocks th m ev = Inr (t', clocks')"
  shows "parse_u32_le (buf t') (sint (cur_offset t) + 6) =
           (case thread_clock_base_map t (thread_address th) of
              None \<Rightarrow> 0
            | Some base \<Rightarrow> ucast (cpu_samples clocks (cpu_reads clocks) - base))"
    and "thread_clock_base_map t' =
           (case thread_clock_base_map t (thread_address th) of
              None \<Rightarrow> (thread_clock_base_map t)
                        (thread_address th \<mapsto> cpu_samples clocks (cpu_reads clocks))
            | Some base \<Rightarrow> thread_clock_base_map t)"
    and "cpu_reads clocks' = Suc (cpu_reads clocks)" and "cpu_samples clocks' = cpu_samples clocks"
proof -
  from ok step obtain a v m3 bm c1 p1 m4 c2 where
    ltc: "log_thread_clock t clocks th
            (Append4LE (Append2LE (buf t) (sint (cur_offset t)) (ucast (GetTid th)))
               (sint (cur_offset t) + 2) v) (sint (cur_offset t) + 6) = (m3, bm, c1, p1)"
    and lwc: "log_wall_clock t c1 m3 p1 = (m4, c2)"
    and t': "t' = t\<lparr>cur_offset := new_offset_of t, buf := m4, thread_clock_base_map := bm\<rparr>"
    and c': "clocks' = c2"
    by (auto simp: LogMethodTraceEvent_def Let_def split: sum.splits prod.splits)
  show "parse_u32_le (buf t') (sint (cur_offset t) + 6) =
           (case thread_clock_base_map t (thread_address th) of
              None \<Rightarrow> 0
            | Some base \<Rightarrow> ucast (cpu_samples clocks (cpu_reads clocks) - base))"
  proof (cases "thread_clock_base_map t (thread_address th)")
    case None
    from ltc have "m3 = Append4LE (Append4LE (Append2LE (buf t) (sint (cur_offset t)) (ucast (GetTid th)))
               (sint (cur_offset t) + 2) v) (sint (cur_offset t) + 6) 0" and "p1 = sint (cur_offset t) + 6 + 4"
      by (simp_all add: log_thread_clock_miss [OF cpu None])
    with lwc log_wall_clock_after [of t c1 m3 "sint (cur_offset t) + 6"]
    show ?thesis by (simp add: t' None parse_Append4LE)
  next
    case (Some base)
    from ltc have "m3 = Append4LE (Append4LE (Append2LE (buf t) (sint (cur_offset t)) (ucast (GetTid th)))
               (sint (cur_offset t) + 2) v) (sint (cur_offset t) + 6)
               (ucast (cpu_samples clocks (cpu_reads clocks) - base))" and "p1 = sint (cur_offset t) + 6 + 4"
      by (simp_all add: log_thread_clock_hit [OF cpu Some])
    with lwc log_wall_clock_after [of t c1 m3 "sint (cur_offset t) + 6"]
    show ?thesis by (simp add: t' Some parse_Append4LE)
  qed
  show "thread_clock_base_map t' =
           (case thread_clock_base_map t (thread_address th) of
              None \<Rightarrow> (thread_clock_base_map t)
                        (thread_address th \<mapsto> cpu_samples clocks (cpu_reads clocks))
            | Some base \<Rightarrow> thread_clock_base_map t)"
    using ltc by (cases "thread_clock_base_map t (thread_address th)")
      (simp_all add: t' log_thread_clock_miss [OF cpu] log_thread_clock_hit [OF cpu])
  from ltc have "cpu_reads c1 = Suc (cpu_reads clocks) \<and> cpu_samples c1 = cpu_samples clocks"
    by (cases "thread_clock_base_map t (thread_address th)")
      (auto simp: log_thread_clock_miss [OF cpu] log_thread_clock_hit [OF cpu])
  with lwc log_wall_clock_cpu_reads [of t c1 m3 p1]
  show "cpu_reads clocks' = Suc (cpu_reads clocks)" and "cpu_samples clocks' = cpu_samples clocks"
    by (simp_all add: c')
qed


lemma UseThreadCpuClock_cong: "clock_source t' = clock_source t \<Longrightarrow> UseThreadCpuClock t' = UseThreadCpuClock t"
  by (simp add: UseThreadCpuClock_def)

lemma step_base_map_dom:
  assumes cpu: "UseThreadCpuClock t"
    and step: "LogMethodTraceEvent dbg t clocks th m ev = Inr (t', clocks')"
  shows "dom (thread_clock_base_map t') =
           dom (thread_clock_base_map t)
             \<union> (if reservation_fails t then {} else {thread_address th})"
proof (cases "reservation_fails t")
  case True
  with step have "t' = t\<lparr>overflow := True\<rparr>" by (simp add: LogMethodTraceEvent_dropped)
  with True show ?thesis by simp
next
  case False
  show ?thesis
    using False LogMethodTraceEvent_thread_clock(2) [OF cpu False step]
    by (cases "thread_clock_base_map t (thread_address th)") auto
qed

lemma run_base_map_dom:
  assumes "UseThreadCpuClock t" and "log_events dbg t clocks calls = Inr (t', clocks')"
  shows "dom (thread_clock_base_map t') =
           dom (thread_clock_base_map t) \<union> logged_threads dbg t clocks calls"
  using assms
proof (induction calls arbitrary: t clocks)
  case Nil
  then show ?case by simp
next
  case (Cons call calls)
  obtain th m ev where call: "call = (th, m, ev)" by (cases call) auto
  from Cons.prems(2) obtain t1 c1 where
    step: "LogMethodTraceEvent dbg t clocks th m ev = Inr (t1, c1)"
    and rest: "log_events dbg t1 c1 calls = Inr (t', clocks')"
    by (auto simp: call split: sum.splits)
  have cpu1: "UseThreadCpuClock t1"
    using Cons.prems(1) LogMethodTraceEvent_const(2) [OF step] by (simp add: UseThreadCpuClock_def)
  show ?case
    using Cons.IH [OF cpu1 rest] step_base_map_dom [OF Cons.prems(1) step]
    by (auto simp: call step)
qed

text \<open>
  Claim C7. With the thread-CPU or the dual clock source, take any run of log calls from
  the constructor and a further call whose reservation succeeds and which returns. If
  no event of the call's thread was logged in the run, the base map has no entry for
  the thread, the record's CPU delta (the four bytes 6 past the record's start, read in
  little-endian order) is 0, and the clock value read by the call is stored as the
  thread's base. If an event of the thread was logged before, the map holds a base for
  it, the delta is the clock value read by the call minus that base, cut to 32 bits, and
  the map is left as it is. With clock readings 1000 and 1175 the two deltas are 0 and
  175.
\<close>

theorem thread_cpu_delta:
  assumes "clk = kProfilerClockSourceThreadCpu \<or> clk = kProfilerClockSourceDual"
    and "Trace_Trace heap clk clocks_init f bs fl = (t0, clocks0)"
    and "log_events dbg t0 clocks0 calls = Inr (t, clocks)"
    and "\<not> reservation_fails t"
    and "LogMethodTraceEvent dbg t clocks th m ev = Inr (t', clocks')"
  shows "(thread_address th \<notin> logged_threads dbg t0 clocks0 calls \<longrightarrow>
            thread_clock_base_map t (thread_address th) = None
            \<and> parse_u32_le (buf t') (sint (cur_offset t) + 6) = 0
            \<and> thread_clock_base_map t' =
                 (thread_clock_base_map t)
                   (thread_address th \<mapsto> cpu_samples clocks (cpu_reads clocks)))
         \<and> (thread_address th \<in> logged_threads dbg t0 clocks0 calls \<longrightarrow>
            (\<exists>base. thread_clock_base_map t (thread_address th) = Some base
               \<and> parse_u32_le (buf t') (sint (cur_offset t) + 6)
                    = ucast (cpu_samples clocks (cpu_reads clocks) - base)
               \<and> thread_clock_base_map t' = thread_clock_base_map t))"
proof -
  from assms(2) have t0: "t0 = fst (Trace_Trace heap clk clocks_init f bs fl)" by simp
  have cpu0: "UseThreadCpuClock t0"
    using assms(1) by (simp add: UseThreadCpuClock_def t0 constructed_fields)
  have "clock_source t = clock_source t0"
    using assms(3)
  proof (induction calls arbitrary: t0 clocks0)
    case Nil
    then show ?case by simp
  next
    case (Cons call calls)
    obtain th1 m1 ev1 where call: "call = (th1, m1, ev1)" by (cases call) auto
    from Cons.prems obtain t1 c1 where
      step: "LogMethodTraceEvent dbg t0 clocks0 th1 m1 ev1 = Inr (t1, c1)"
      and rest: "log_events dbg t1 c1 calls = Inr (t, clocks)"
      by (auto simp: call split: sum.splits)
    show ?case using Cons.IH [OF rest] LogMethodTraceEvent_const(2) [OF step] by simp
  qed
  with cpu0 have cpu: "UseThreadCpuClock t" by (simp add: UseThreadCpuClock_def)
  have "dom (thread_clock_base_map t) = logged_threads dbg t0 clocks0 calls"
    using run_base_map_dom [OF cpu0 assms(3)] by (simp add: t0 constructed_fields)
  then have d: "thread_address th \<in> logged_threads dbg t0 clocks0 calls
      \<longleftrightarrow> thread_clock_base_map t (thread_address th) \<noteq> None"
    by (auto simp: dom_def)
  note s = LogMethodTraceEvent_thread_clock(1,2) [OF cpu assms(4,5)]
  show ?thesis
  proof (cases "thread_clock_base_map t (thread_address th)")
    case None
    with s d show ?thesis by simp
  next
    case (Some base)
    with s d show ?thesis by simp
  qed
qed


theorem thread_cpu_delta_witness:
  "\<exists>t0 clocks0 t1 clocks1 t2 clocks2.
     Trace_Trace zero_memory kProfilerClockSourceDual example_clocks None 4096 0 = (t0, clocks0)
     \<and> LogMethodTraceEvent True t0 clocks0 example_thread example_method kMethodEntered
           = Inr (t1, clocks1)
     \<and> LogMethodTraceEvent True t1 clocks1 example_thread example_method kMethodEntered
           = Inr (t2, clocks2)
     \<and> \<not> reservation_fails t0 \<and> \<not> reservation_fails t1
     \<and> cpu_samples clocks0 (cpu_reads clocks0) = 1000
     \<and> cpu_samples clocks1 (cpu_reads clocks1) = 1175
     \<and> parse_u32_le (buf t1) 38 = 0
     \<and> thread_clock_base_map t1 (thread_address example_thread) = Some 1000
     \<and> parse_u32_le (buf t2) 52 = 175"
proof -
  let ?call = "(example_thread, example_method, kMethodEntered)"
  obtain t0 clocks0 where
    a: "Trace_Trace zero_memory kProfilerClockSourceDual example_clocks None 4096 0 = (t0, clocks0)"
    by (cases "Trace_Trace zero_memory kProfilerClockSourceDual example_clocks None 4096 0")
  then have t0: "t0 = fst (Trace_Trace zero_memory kProfilerClockSourceDual example_clocks None 4096 0)"
    and c0: "clocks0 = snd (Trace_Trace zero_memory kProfilerClockSourceDual example_clocks None 4096 0)"
    by simp_all
  have k0: "cur_offset t0 = 32" "buffer_size t0 = 4096" "clock_source t0 = kProfilerClockSourceDual"
    by (simp_all add: t0 constructed_fields)
  have cpu0: "UseThreadCpuClock t0" by (simp add: UseThreadCpuClock_def k0)
  have s0: "cpu_samples clocks0 (cpu_reads clocks0) = 1000" "cpu_samples clocks0 (Suc (cpu_reads clocks0)) = 1175"
    by (simp_all add: c0 Trace_Trace_def MicroTime_def example_clocks_def Let_def)
  have al: "example_method AND 3 = 0 \<or> \<not> True" by (simp add: example_method_def)
  from LogMethodTraceEvent_total [OF event_action.simps(1) al]
  obtain t1 clocks1 where
    b: "LogMethodTraceEvent True t0 clocks0 example_thread example_method kMethodEntered
          = Inr (t1, clocks1)"
    by blast
  from LogMethodTraceEvent_total [OF event_action.simps(1) al]
  obtain t2 clocks2 where
    c: "LogMethodTraceEvent True t1 clocks1 example_thread example_method kMethodEntered
          = Inr (t2, clocks2)"
    by blast
  have ok0: "\<not> reservation_fails t0"
    by (simp add: reservation_fails_def new_offset_of_def k0 GetRecordSize_cases)
  note r = LogMethodTraceEvent_reserved [OF ok0 b]
  have k1: "cur_offset t1 = 46"
    by (simp add: r new_offset_of_def k0 GetRecordSize_cases)
  have ok1: "\<not> reservation_fails t1"
    by (simp add: reservation_fails_def new_offset_of_def k1 r k0 GetRecordSize_cases)
  have s1: "cpu_samples clocks1 (cpu_reads clocks1) = 1175"
    using LogMethodTraceEvent_thread_clock(3,4) [OF cpu0 ok0 b] s0 by simp
  have dual: "kProfilerClockSourceDual = kProfilerClockSourceThreadCpu
      \<or> kProfilerClockSourceDual = kProfilerClockSourceDual" by simp
  have run0: "log_events True t0 clocks0 [] = Inr (t0, clocks0)" by simp
  have run1: "log_events True t0 clocks0 [?call] = Inr (t1, clocks1)" by (simp add: b)
  have first: "parse_u32_le (buf t1) 38 = 0"
    "thread_clock_base_map t1 (thread_address example_thread) = Some 1000"
    using thread_cpu_delta [OF dual a run0 ok0 b] s0 by (simp_all add: k0)
  have "thread_address example_thread \<in> logged_threads True t0 clocks0 [?call]"
    by (simp add: b ok0)
  with thread_cpu_delta [OF dual a run1 ok1 c] first(2) s1
  have second: "parse_u32_le (buf t2) 52 = 175"
    by (simp add: k1)
  show ?thesis using a b c ok0 ok1 s0(1) s1 first second by blast
qed


lemma reservation_fails_kept: "reservation_fails (t\<lparr>overflow := True\<rparr>) = reservation_fails t"
  by (simp add: reservation_fails_def new_offset_of_def)

text \<open>
  Claim C10. A log call whose reservation fails changes nothing but the overflow flag:
  the result is the state with the flag set, so the cursor, the buffer and the base map
  are as before and no clock is read; the reservation still fails in the state it
  leaves. As the base map gets no entry for the thread, a call of that thread that is
  reserved in a state with the map's entry as the dropped call left it, there being
  none before, records the CPU delta 0.
\<close>

theorem dropped_event_frame:
  assumes "reservation_fails t"
  shows "LogMethodTraceEvent dbg t clocks th m ev = Inr (t\<lparr>overflow := True\<rparr>, clocks)
         \<and> cur_offset (t\<lparr>overflow := True\<rparr>) = cur_offset t
         \<and> buf (t\<lparr>overflow := True\<rparr>) = buf t
         \<and> thread_clock_base_map (t\<lparr>overflow := True\<rparr>) = thread_clock_base_map t
         \<and> reservation_fails (t\<lparr>overflow := True\<rparr>)
         \<and> (\<forall>s clocks2 m2 ev2 s' clocks2'.
               UseThreadCpuClock s
               \<and> thread_clock_base_map t (thread_address th) = None
               \<and> thread_clock_base_map s (thread_address th)
                    = thread_clock_base_map (t\<lparr>overflow := True\<rparr>) (thread_address th)
               \<and> \<not> reservation_fails s
               \<and> LogMethodTraceEvent dbg s clocks2 th m2 ev2 = Inr (s', clocks2')
               \<longrightarrow> parse_u32_le (buf s') (sint (cur_offset s) + 6) = 0)"
proof -
  have later: "parse_u32_le (buf s') (sint (cur_offset s) + 6) = 0"
    if "UseThreadCpuClock s" and "thread_clock_base_map t (thread_address th) = None"
      and "thread_clock_base_map s (thread_address th)
             = thread_clock_base_map (t\<lparr>overflow := True\<rparr>) (thread_address th)"
      and "\<not> reservation_fails s"
      and "LogMethodTraceEvent dbg s clocks2 th m2 ev2 = Inr (s', clocks2')"
    for s clocks2 m2 ev2 s' clocks2'
    using LogMethodTraceEvent_thread_clock(1) [OF that(1,4,5)] that(2,3) by simp
  have "reservation_fails (t\<lparr>overflow := True\<rparr>)"
    using assms by (simp only: reservation_fails_kept)
  moreover have "cur_offset (t\<lparr>overflow := True\<rparr>) = cur_offset t"
    "buf (t\<lparr>overflow := True\<rparr>) = buf t"
    "thread_clock_base_map (t\<lparr>overflow := True\<rparr>) = thread_clock_base_map t"
    by simp_all
  ultimately show ?thesis
    using LogMethodTraceEvent_dropped [OF assms, of dbg clocks th m ev] later
    by blast
qed

theorem dropped_event_frame_witness:
  "\<exists>t clocks0 s clocks1 s' clocks1'.
     Trace_Trace zero_memory kProfilerClockSourceThreadCpu example_clocks None 32 0 = (t, clocks0)
     \<and> reservation_fails t
     \<and> LogMethodTraceEvent True t clocks0 example_thread example_method kMethodEntered
           = Inr (t\<lparr>overflow := True\<rparr>, clocks0)
     \<and> thread_clock_base_map (t\<lparr>overflow := True\<rparr>) (thread_address example_thread) = None
     \<and> Trace_Trace zero_memory kProfilerClockSourceThreadCpu example_clocks None 64 0 = (s, clocks1)
     \<and> UseThreadCpuClock s \<and> \<not> reservation_fails s
     \<and> LogMethodTraceEvent True s clocks1 example_thread example_method kMethodEntered
           = Inr (s', clocks1')
     \<and> parse_u32_le (buf s') (sint (cur_offset s) + 6) = 0"
proof -
  obtain t clocks0 where
    a: "Trace_Trace zero_memory kProfilerClockSourceThreadCpu example_clocks None 32 0 = (t, clocks0)"
    by (cases "Trace_Trace zero_memory kProfilerClockSourceThreadCpu example_clocks None 32 0")
  then have t: "t = fst (Trace_Trace zero_memory kProfilerClockSourceThreadCpu example_clocks None 32 0)"
    by simp
  have kt: "cur_offset t = 32" "buffer_size t = 32" "clock_source t = kProfilerClockSourceThreadCpu"
    "thread_clock_base_map t = Map.empty"
    by (simp_all add: t constructed_fields)
  have fails: "reservation_fails t"
    by (simp add: reservation_fails_def new_offset_of_def kt GetRecordSize_cases)
  obtain s clocks1 where
    b: "Trace_Trace zero_memory kProfilerClockSourceThreadCpu example_clocks None 64 0 = (s, clocks1)"
    by (cases "Trace_Trace zero_memory kProfilerClockSourceThreadCpu example_clocks None 64 0")
  then have s: "s = fst (Trace_Trace zero_memory kProfilerClockSourceThreadCpu example_clocks None 64 0)"
    by simp
  have ks: "cur_offset s = 32" "buffer_size s = 64" "clock_source s = kProfilerClockSourceThreadCpu"
    "thread_clock_base_map s = Map.empty"
    by (simp_all add: s constructed_fields)
  have cpu: "UseThreadCpuClock s" by (simp add: UseThreadCpuClock_def ks)
  have ok: "\<not> reservation_fails s"
    by (simp add: reservation_fails_def new_offset_of_def ks GetRecordSize_cases)
  have al: "example_method AND 3 = 0 \<or> \<not> True" by (simp add: example_method_def)
  from LogMethodTraceEvent_total [OF event_action.simps(1) al]
  obtain s' clocks1' where
    c: "LogMethodTraceEvent True s clocks1 example_thread example_method kMethodEntered
          = Inr (s', clocks1')"
    by blast
  note inst = dropped_event_frame [OF fails, of True clocks0 example_thread example_method
      kMethodEntered]
  from inst have d: "LogMethodTraceEvent True t clocks0 example_thread example_method kMethodEntered
           = Inr (t\<lparr>overflow := True\<rparr>, clocks0)"
    and e: "thread_clock_base_map (t\<lparr>overflow := True\<rparr>) = thread_clock_base_map t"
    by blast+
  have n: "thread_clock_base_map t (thread_address example_thread) = None"
    by (simp add: kt)
  have n': "thread_clock_base_map (t\<lparr>overflow := True\<rparr>) (thread_address example_thread) = None"
    by (simp add: kt)
  have eq: "thread_clock_base_map s (thread_address example_thread)
      = thread_clock_base_map (t\<lparr>overflow := True\<rparr>) (thread_address example_thread)"
    by (simp add: kt ks)
  from inst cpu n eq ok c have g: "parse_u32_le (buf s') (sint (cur_offset s) + 6) = 0"
    by blast
  show ?thesis using a fails d n' b cpu ok c g by blast
qed

section \<open>The calibration of the clock overhead\<close>

lemma MeasureClockOverhead_reads:
  "MeasureClockOverhead t c =
     c\<lparr>cpu_reads := cpu_reads c + (if UseThreadCpuClock t then 1 else 0),
       wall_reads := wall_reads c + (if UseWallClock t then 1 else 0)\<rparr>"
  by (simp add: MeasureClockOverhead_def ThreadCpuMicroTime_def MicroTime_def)

lemma MeasureClockOverhead_funpow:
  "(MeasureClockOverhead t ^^ n) c =
     c\<lparr>cpu_reads := cpu_reads c + (if UseThreadCpuClock t then n else 0),
       wall_reads := wall_reads c + (if UseWallClock t then n else 0)\<rparr>"
proof (induction n)
  case 0
  show ?case by simp
next
  case (Suc n)
  have "(MeasureClockOverhead t ^^ Suc n) c = MeasureClockOverhead t ((MeasureClockOverhead t ^^ n) c)"
    by (simp only: funpow.simps o_apply)
  then show ?case by (simp only: Suc) (simp add: MeasureClockOverhead_reads)
qed

lemma funpow_8: "(f ^^ 8) x = f (f (f (f (f (f (f (f x)))))))"
  by (simp add: numeral_eq_Suc)

lemma GetClockOverhead_loop_funpow:
  "0 \<le> i \<Longrightarrow> GetClockOverhead_loop t i c = (MeasureClockOverhead t ^^ (8 * nat i)) c"
proof (induction t i c rule: GetClockOverhead_loop.induct)
  case (1 t i c)
  show ?case
  proof (cases "i > 0")
    case True
    let ?c8 = "(MeasureClockOverhead t ^^ 8) c"
    have e: "8 * nat i = 8 * nat (i - 1) + 8" using True by simp
    have "GetClockOverhead_loop t i c = GetClockOverhead_loop t (i - 1) ?c8"
      using True by (subst GetClockOverhead_loop.simps) (simp only: funpow_8 if_True)
    also have "\<dots> = (MeasureClockOverhead t ^^ (8 * nat (i - 1))) ?c8"
      using True "1.IH" [OF True] by (simp only: funpow_8)
    also have "\<dots> = (MeasureClockOverhead t ^^ (8 * nat i)) c"
      by (simp only: e funpow_add o_apply)
    finally show ?thesis .
  next
    case False
    with "1.prems" have "i = 0" by simp
    then show ?thesis by (subst GetClockOverhead_loop.simps) simp
  qed
qed

lemma nanoseconds_per_iteration:
  fixes elapsed :: uint64_t
  shows "unat (elapsed div 32) = (unat elapsed * 1000) div 32000"
proof -
  have "unat (elapsed div 32) = unat elapsed div 32" by (simp add: unat_div)
  also have "\<dots> = (unat elapsed * 1000) div (32 * 1000)" by simp
  finally show ?thesis by simp
qed

text \<open>
  Claim C9. \<^verbatim>\<open>GetClockOverhead\<close> reads the thread-CPU clock, runs its loop, reads the
  thread-CPU clock again and returns the difference of the two readings divided by 32,
  cut to 32 bits. The loop of 4000 passes is 32000 = 4000 * 8 applications of
  \<^verbatim>\<open>MeasureClockOverhead\<close>, each of which reads every clock in use once: in all, each
  clock in use is read 32000 times between the two readings. Dividing the elapsed
  microseconds by 32 is the elapsed nanoseconds (microseconds times 1000) divided by the
  32000 iterations.
\<close>

theorem clock_overhead_calibration:
  "GetClockOverhead t c =
     (ucast ((cpu_samples c (cpu_reads c + 1 + (if UseThreadCpuClock t then 32000 else 0))
               - cpu_samples c (cpu_reads c)) div 32),
      c\<lparr>cpu_reads := cpu_reads c + 2 + (if UseThreadCpuClock t then 32000 else 0),
        wall_reads := wall_reads c + (if UseWallClock t then 32000 else 0)\<rparr>)
   \<and> GetClockOverhead_loop t 4000 c1 = (MeasureClockOverhead t ^^ (4000 * 8)) c1
   \<and> MeasureClockOverhead t c1 =
        c1\<lparr>cpu_reads := cpu_reads c1 + (if UseThreadCpuClock t then 1 else 0),
           wall_reads := wall_reads c1 + (if UseWallClock t then 1 else 0)\<rparr>
   \<and> unat (elapsed div 32 :: uint64_t) = (unat elapsed * 1000) div 32000"
proof -
  have loop: "GetClockOverhead_loop t 4000 x = (MeasureClockOverhead t ^^ (4000 * 8)) x" for x
    using GetClockOverhead_loop_funpow [of 4000 t x] by simp
  have "GetClockOverhead t c =
     (ucast ((cpu_samples c (cpu_reads c + 1 + (if UseThreadCpuClock t then 32000 else 0))
               - cpu_samples c (cpu_reads c)) div 32),
      c\<lparr>cpu_reads := cpu_reads c + 2 + (if UseThreadCpuClock t then 32000 else 0),
        wall_reads := wall_reads c + (if UseWallClock t then 32000 else 0)\<rparr>)"
    by (simp add: GetClockOverhead_def ThreadCpuMicroTime_def loop MeasureClockOverhead_funpow
        Let_def)
  then show ?thesis
    using loop [of c1] MeasureClockOverhead_reads [of t c1] nanoseconds_per_iteration [of elapsed]
    by blast
qed

theorem clock_overhead_calibration_witness:
  "fst (GetClockOverhead
          (fst (Trace_Trace zero_memory kProfilerClockSourceDual example_clocks None 4096 0))
          example_clocks) = 5
   \<and> cpu_reads (snd (GetClockOverhead
          (fst (Trace_Trace zero_memory kProfilerClockSourceDual example_clocks None 4096 0))
          example_clocks)) = 32002
   \<and> wall_reads (snd (GetClockOverhead
          (fst (Trace_Trace zero_memory kProfilerClockSourceDual example_clocks None 4096 0))
          example_clocks)) = 32000"
  using clock_overhead_calibration
    [of "fst (Trace_Trace zero_memory kProfilerClockSourceDual example_clocks None 4096 0)"
      example_clocks example_clocks 0]
  by (simp add: UseThreadCpuClock_def UseWallClock_def constructed_fields example_clocks_def)

section \<open>The preamble\<close>


















section \<open>Properties of starting a trace\<close>

lemma Start_active:
  "the_trace rt \<noteq> None \<Longrightarrow>
   Start k heap OpenFile rt filename trace_fd bs fl ddms
     = rt\<lparr>error_log := error_log rt @ [''Trace already in progress, ignoring this request'']\<rparr>"
  by (simp add: Start_def LOG_ERROR_def)

lemma Start_created_iff:
  assumes "the_trace rt = None"
  shows "the_trace (Start k heap OpenFile rt filename trace_fd bs fl ddms) \<noteq> None
         \<longleftrightarrow> ddms \<or> \<not> trace_fd <s 0 \<or> OpenFile filename \<noteq> None"
  using assms
  by (auto simp: Start_def Let_def SuspendAll_def ResumeAll_def LOG_ERROR_def
      ThrowRuntimeException_def SetStatsEnabled_def AddListener_def split: prod.splits)

lemma Start_created:
  assumes "the_trace rt = None"
    and "the_trace (Start k heap OpenFile rt filename trace_fd bs fl ddms) \<noteq> None"
  shows "listeners (Start k heap OpenFile rt filename trace_fd bs fl ddms)
           = listeners rt @ [[kMethodEntered, kMethodExited, kMethodUnwind]]"
    and "stats_enabled (Start k heap OpenFile rt filename trace_fd bs fl ddms)
           \<longleftrightarrow> stats_enabled rt \<or> (fl \<noteq> 0 \<and> k \<noteq> 0)"
  using assms
  by (auto simp: Start_def Let_def SuspendAll_def ResumeAll_def LOG_ERROR_def
      ThrowRuntimeException_def SetStatsEnabled_def AddListener_def split: prod.splits if_splits)

text \<open>
  Claim C8. \<^verbatim>\<open>Start\<close> called while a trace exists appends the error
  \<^verbatim>\<open>Trace already in progress, ignoring this request\<close> to the log and returns with
  everything else as it was: the trace in \<^verbatim>\<open>the_trace_\<close> (its buffer, cursor, flags and
  file), the listeners and the statistics switch. So when a first \<^verbatim>\<open>Start\<close>, called
  with no trace in progress, creates the trace, it registers one listener, and a second
  \<^verbatim>\<open>Start\<close> right after it registers none: the two calls increase the number of
  listeners by exactly 1.
\<close>

theorem start_while_active:
  "(the_trace rt \<noteq> None \<longrightarrow>
      Start k heap OpenFile rt filename trace_fd bs fl ddms
        = rt\<lparr>error_log := error_log rt
                 @ [''Trace already in progress, ignoring this request'']\<rparr>
      \<and> the_trace (Start k heap OpenFile rt filename trace_fd bs fl ddms) = the_trace rt
      \<and> listeners (Start k heap OpenFile rt filename trace_fd bs fl ddms) = listeners rt
      \<and> stats_enabled (Start k heap OpenFile rt filename trace_fd bs fl ddms) = stats_enabled rt)
   \<and> (the_trace rt = None
        \<and> the_trace (Start k heap OpenFile rt filename trace_fd bs fl ddms) \<noteq> None \<longrightarrow>
      length (listeners (Start k heap OpenFile rt filename trace_fd bs fl ddms))
        = length (listeners rt) + 1
      \<and> length (listeners
            (Start k2 heap2 OpenFile2 (Start k heap OpenFile rt filename trace_fd bs fl ddms)
               filename2 trace_fd2 bs2 fl2 ddms2))
        = length (listeners rt) + 1
      \<and> the_trace
            (Start k2 heap2 OpenFile2 (Start k heap OpenFile rt filename trace_fd bs fl ddms)
               filename2 trace_fd2 bs2 fl2 ddms2)
        = the_trace (Start k heap OpenFile rt filename trace_fd bs fl ddms))"
proof (intro conjI impI)
  assume a: "the_trace rt \<noteq> None"
  show "Start k heap OpenFile rt filename trace_fd bs fl ddms
        = rt\<lparr>error_log := error_log rt
                 @ [''Trace already in progress, ignoring this request'']\<rparr>"
    using a by (rule Start_active)
  then show "the_trace (Start k heap OpenFile rt filename trace_fd bs fl ddms) = the_trace rt"
    "listeners (Start k heap OpenFile rt filename trace_fd bs fl ddms) = listeners rt"
    "stats_enabled (Start k heap OpenFile rt filename trace_fd bs fl ddms) = stats_enabled rt"
    by simp_all
next
  assume b: "the_trace rt = None
        \<and> the_trace (Start k heap OpenFile rt filename trace_fd bs fl ddms) \<noteq> None"
  let ?rt1 = "Start k heap OpenFile rt filename trace_fd bs fl ddms"
  from b have n: "the_trace rt = None" and c: "the_trace ?rt1 \<noteq> None" by simp_all
  note second = Start_active [OF c, of k2 heap2 OpenFile2 filename2 trace_fd2 bs2 fl2 ddms2]
  show one: "length (listeners ?rt1) = length (listeners rt) + 1"
    by (simp add: Start_created(1) [OF n c])
  show "length (listeners (Start k2 heap2 OpenFile2 ?rt1 filename2 trace_fd2 bs2 fl2 ddms2))
        = length (listeners rt) + 1"
    by (simp add: second one)
  show "the_trace (Start k2 heap2 OpenFile2 ?rt1 filename2 trace_fd2 bs2 fl2 ddms2)
        = the_trace ?rt1"
    by (simp add: second)
qed

theorem start_while_active_witness:
  "the_trace example_runtime = None
   \<and> the_trace (Start 1 zero_memory no_file example_runtime ''trace'' 0 4096 0 True) \<noteq> None
   \<and> length (listeners example_runtime) = 0
   \<and> length (listeners (Start 1 zero_memory no_file example_runtime ''trace'' 0 4096 0 True)) = 1
   \<and> length (listeners
        (Start 1 zero_memory no_file
           (Start 1 zero_memory no_file example_runtime ''trace'' 0 4096 0 True)
           ''trace'' 0 4096 0 True)) = 1
   \<and> Start 1 zero_memory no_file
        (Start 1 zero_memory no_file example_runtime ''trace'' 0 4096 0 True)
        ''trace'' 0 4096 0 True
      = (Start 1 zero_memory no_file example_runtime ''trace'' 0 4096 0 True)
          \<lparr>error_log := error_log
              (Start 1 zero_memory no_file example_runtime ''trace'' 0 4096 0 True)
              @ [''Trace already in progress, ignoring this request'']\<rparr>"
proof -
  let ?rt1 = "Start 1 zero_memory no_file example_runtime ''trace'' 0 4096 0 True"
  have n: "the_trace example_runtime = None" "length (listeners example_runtime) = 0"
    by (simp_all add: example_runtime_def)
  have c: "the_trace ?rt1 \<noteq> None"
    using Start_created_iff [OF n(1), of 1 zero_memory no_file "''trace''" 0 4096 0 True] by simp
  note first = start_while_active [of example_runtime 1 zero_memory no_file "''trace''" 0 4096 0 True
      1 zero_memory no_file "''trace''" 0 4096 0 True]
  note second = start_while_active [of ?rt1 1 zero_memory no_file "''trace''" 0 4096 0 True
      1 zero_memory no_file "''trace''" 0 4096 0 True]
  from first n c have l: "length (listeners ?rt1) = 1"
    "length (listeners (Start 1 zero_memory no_file ?rt1 ''trace'' 0 4096 0 True)) = 1"
    by simp_all
  from second c have e: "Start 1 zero_memory no_file ?rt1 ''trace'' 0 4096 0 True
      = ?rt1\<lparr>error_log := error_log ?rt1
              @ [''Trace already in progress, ignoring this request'']\<rparr>"
    by blast
  show ?thesis using n c l e by blast
qed

lemma Start_created_flags:
  assumes "the_trace rt = None"
    and "the_trace (Start k heap OpenFile rt filename trace_fd bs fl ddms) = Some t"
  shows "flags t = fl" "buffer_size t = bs" "cur_offset t = 32" "\<not> overflow t"
  using assms
  by (auto simp: Start_def Let_def SuspendAll_def ResumeAll_def LOG_ERROR_def
      ThrowRuntimeException_def SetStatsEnabled_def AddListener_def Trace_Trace_def
      kTraceHeaderLength_def split: prod.splits if_splits)

lemma FinishTracing_header_stats:
  "stats_enabled (snd (FinishTracing_header k mh rt t))
     \<longleftrightarrow> stats_enabled rt \<and> flags t AND k = 0"
  by (cases "GetClockOverhead t (snd (MicroTime (clock_state rt)))")
    (auto simp: FinishTracing_header_def Let_def SetStatsEnabled_def split: prod.splits)

text \<open>
  Claim C1, at the input where the code departs from it. With the flag bit
  \<^verbatim>\<open>kTraceCountAllocs = 1\<close> and \<^verbatim>\<open>flags = 2\<close> the bit is clear in the flags, the
  statistics are off and no trace is in progress; \<^verbatim>\<open>Start\<close> creates the trace and
  switches the statistics on, since its test \<^verbatim>\<open>(flags && kTraceCountAllocs) != 0\<close>
  holds for every flags value other than 0. \<^verbatim>\<open>FinishTracing\<close>, which tests
  \<^verbatim>\<open>(flags_ & kTraceCountAllocs) != 0\<close>, then leaves them on.
\<close>

theorem start_enables_stats_with_bit_clear:
  "(2 :: int32_t) AND 1 = 0
   \<and> \<not> stats_enabled example_runtime
   \<and> the_trace example_runtime = None
   \<and> the_trace (Start 1 zero_memory no_file example_runtime ''trace'' 0 4096 2 True) \<noteq> None
   \<and> stats_enabled (Start 1 zero_memory no_file example_runtime ''trace'' 0 4096 2 True)
   \<and> stats_enabled (snd (FinishTracing_header 1 example_method_info
        (Start 1 zero_memory no_file example_runtime ''trace'' 0 4096 2 True)
        (the (the_trace (Start 1 zero_memory no_file example_runtime ''trace'' 0 4096 2 True)))))"
proof -
  let ?rt1 = "Start 1 zero_memory no_file example_runtime ''trace'' 0 4096 2 True"
  have n: "the_trace example_runtime = None" "\<not> stats_enabled example_runtime"
    by (simp_all add: example_runtime_def)
  have c: "the_trace ?rt1 \<noteq> None"
    using Start_created_iff [OF n(1), of 1 zero_memory no_file "''trace''" 0 4096 2 True] by simp
  then obtain t where t: "the_trace ?rt1 = Some t" by blast
  have s: "stats_enabled ?rt1"
    using Start_created(2) [OF n(1) c] by simp
  have "flags t = 2" using Start_created_flags(1) [OF n(1) t] .
  with s have "stats_enabled (snd (FinishTracing_header 1 example_method_info ?rt1 t))"
    by (simp add: FinishTracing_header_stats)
  with n c s t show ?thesis by simp
qed

end
